theory Spec2Isabelle
  imports Complex_Main "HOL-Library.Word" "HOL-Library.AList"
begin

unbundle bit_operations_syntax

section \<open>Python values and exceptions\<close>

text \<open>
  The exceptions of Python that the simulator's code can meet. \<open>StructError\<close> is
  \<^verbatim>\<open>struct.error\<close>; \<open>OtherError\<close> stands for any further subclass of
  \<^verbatim>\<open>Exception\<close> that a user-supplied producer raises.
\<close>

datatype exn = ValueError | TypeError | OverflowError | IndexError | StructError | OtherError

text \<open>
  A Python \<^verbatim>\<open>float\<close>: a finite number, an infinity or a NaN. A finite float is
  identified with the real number it denotes; the two zeros are not told apart and
  the rounding of float arithmetic is not modelled (no property below depends on it).
\<close>

datatype pyfloat = Finite real | PosInf | NegInf | NaN

text \<open>A Python \<^verbatim>\<open>str\<close> is a sequence of Unicode code points.\<close>

type_synonym pystr = "nat list"

text \<open>
  The values that configuration entries hold and that producers return: \<^verbatim>\<open>int\<close>
  (unbounded), \<^verbatim>\<open>bool\<close>, \<^verbatim>\<open>float\<close>, \<^verbatim>\<open>str\<close> and \<^verbatim>\<open>None\<close>.
\<close>

datatype pyval = PInt int | PBool bool | PFloat pyfloat | PStr pystr | PNone

text \<open>
  The builtins whose results depend on text formats or on IEEE-754 bit patterns are
  parameters of the model: \<^verbatim>\<open>int(s)\<close> and \<^verbatim>\<open>float(s)\<close> on a string (\<open>None\<close> is
  \<^verbatim>\<open>ValueError\<close>), the rounding of an integer to the nearest double, \<^verbatim>\<open>str(x)\<close> on a
  float, and the 16-bit words of \<^verbatim>\<open>struct.pack('>f', x)\<close> and \<^verbatim>\<open>struct.pack('>d', x)\<close>.
\<close>

record pyrt =
  int_of_str :: "pystr \<Rightarrow> int option"
  float_of_str :: "pystr \<Rightarrow> pyfloat option"
  round_double :: "real \<Rightarrow> real"
  str_of_float :: "pyfloat \<Rightarrow> pystr"
  words_f :: "pyfloat \<Rightarrow> int \<times> int"
  words_d :: "pyfloat \<Rightarrow> int \<times> int \<times> int \<times> int"

text \<open>\<^verbatim>\<open>int(x)\<close> on a finite float truncates towards zero.\<close>

definition trunc :: "real \<Rightarrow> int" where
  "trunc r = (if 0 \<le> r then \<lfloor>r\<rfloor> else \<lceil>r\<rceil>)"

text \<open>
  \<^verbatim>\<open>int(value)\<close>: \<^verbatim>\<open>OverflowError\<close> on an infinity, \<^verbatim>\<open>ValueError\<close> on a NaN and on
  a string that is no integer literal, \<^verbatim>\<open>TypeError\<close> on \<^verbatim>\<open>None\<close>.
\<close>

fun py_int :: "pyrt \<Rightarrow> pyval \<Rightarrow> exn + int" where
  "py_int rt (PInt i) = Inr i"
| "py_int rt (PBool b) = Inr (if b then 1 else 0)"
| "py_int rt (PFloat (Finite r)) = Inr (trunc r)"
| "py_int rt (PFloat PosInf) = Inl OverflowError"
| "py_int rt (PFloat NegInf) = Inl OverflowError"
| "py_int rt (PFloat NaN) = Inl ValueError"
| "py_int rt (PStr s) = (case int_of_str rt s of None \<Rightarrow> Inl ValueError | Some i \<Rightarrow> Inr i)"
| "py_int rt PNone = Inl TypeError"

text \<open>
  \<^verbatim>\<open>float(value)\<close>: an integer that rounds to a double beyond the largest finite one
  (from \<open>2^1024 - 2^970\<close> on, in absolute value) raises \<^verbatim>\<open>OverflowError\<close>.
\<close>

fun py_float :: "pyrt \<Rightarrow> pyval \<Rightarrow> exn + pyfloat" where
  "py_float rt (PInt i) =
     (if 2 ^ 1024 - 2 ^ 970 \<le> \<bar>i\<bar> then Inl OverflowError
      else Inr (Finite (round_double rt (real_of_int i))))"
| "py_float rt (PBool b) = Inr (Finite (if b then 1 else 0))"
| "py_float rt (PFloat f) = Inr f"
| "py_float rt (PStr s) = (case float_of_str rt s of None \<Rightarrow> Inl ValueError | Some f \<Rightarrow> Inr f)"
| "py_float rt PNone = Inl TypeError"

text \<open>\<^verbatim>\<open>bool(value)\<close>, the truth value of an object; it never raises on these values.\<close>

fun py_bool :: "pyval \<Rightarrow> bool" where
  "py_bool (PInt i) = (i \<noteq> 0)"
| "py_bool (PBool b) = b"
| "py_bool (PFloat f) = (f \<noteq> Finite 0)"
| "py_bool (PStr s) = (s \<noteq> [])"
| "py_bool PNone = False"

text \<open>The decimal digits of a natural number, as code points.\<close>

fun digits :: "nat \<Rightarrow> pystr" where
  "digits n = (if n < 10 then [48 + n] else digits (n div 10) @ [48 + n mod 10])"

declare digits.simps [simp del]

text \<open>\<^verbatim>\<open>str(i)\<close> on an integer.\<close>

definition str_of_int :: "int \<Rightarrow> pystr" where
  "str_of_int i = (if i < 0 then 45 # digits (nat (- i)) else digits (nat i))"

text \<open>\<^verbatim>\<open>str(value)\<close>.\<close>

fun py_str :: "pyrt \<Rightarrow> pyval \<Rightarrow> pystr" where
  "py_str rt (PInt i) = str_of_int i"
| "py_str rt (PBool b) = (if b then [84, 114, 117, 101] else [70, 97, 108, 115, 101])"
| "py_str rt (PFloat f) = str_of_float rt f"
| "py_str rt (PStr s) = s"
| "py_str rt PNone = [78, 111, 110, 101]"

type_synonym byte = "8 word"

section \<open>Codec: \<^verbatim>\<open>struct\<close> helpers\<close>

text \<open>
  \<^verbatim>\<open>struct.pack('>B', v)\<close> and \<^verbatim>\<open>struct.pack('>H', v)\<close>: an integer outside the
  format's range raises \<^verbatim>\<open>struct.error\<close>.
\<close>

definition pack_B :: "int \<Rightarrow> exn + byte list" where
  "pack_B v = (if 0 \<le> v \<and> v \<le> 255 then Inr [word_of_int v] else Inl StructError)"

definition pack_H :: "int \<Rightarrow> exn + byte list" where
  "pack_H v = (if 0 \<le> v \<and> v \<le> 65535
               then Inr [word_of_int (v div 256), word_of_int (v mod 256)]
               else Inl StructError)"

text \<open>\<^verbatim>\<open>struct.unpack('>H', b)\<close> on the two bytes \<open>hi\<close>, \<open>lo\<close>.\<close>

definition unpack_H :: "byte \<Rightarrow> byte \<Rightarrow> int" where
  "unpack_H hi lo = uint hi * 256 + uint lo"

text \<open>
  Sequencing of fallible steps: the first exception wins, as inside one \<^verbatim>\<open>try\<close> block.
\<close>

definition ebind :: "exn + 'a \<Rightarrow> ('a \<Rightarrow> exn + 'b) \<Rightarrow> exn + 'b" where
  "ebind m f = (case m of Inl e \<Rightarrow> Inl e | Inr x \<Rightarrow> f x)"

text \<open>Concatenation of packed pieces, left to right.\<close>

fun econcat :: "(exn + byte list) list \<Rightarrow> exn + byte list" where
  "econcat [] = Inr []"
| "econcat (p # ps) = ebind p (\<lambda>x. ebind (econcat ps) (\<lambda>y. Inr (x @ y)))"

text \<open>
  A Python slice \<^verbatim>\<open>xs[i:j]\<close> with \<open>0 \<le> i\<close> and \<open>0 \<le> j\<close>: it never raises, stops at the
  end of the sequence, and is empty when \<open>j \<le> i\<close>.
\<close>

definition py_slice :: "'a list \<Rightarrow> nat \<Rightarrow> nat \<Rightarrow> 'a list" where
  "py_slice xs i j = take (j - i) (drop i xs)"

section \<open>Codec: parsing a request\<close>

record request =
  transaction_id :: int
  unit_id :: int
  function_code :: int
  req_data :: "byte list"

text \<open>
  \<^verbatim>\<open>parse_modbus_request\<close>. The result \<open>None\<close> is the source's \<^verbatim>\<open>return None\<close>.
  Inside the \<^verbatim>\<open>try\<close> the seven header bytes and the function code byte exist, since the
  buffer has at least 8 bytes, and a slice never raises, so the \<^verbatim>\<open>except\<close> branch is
  not reachable. The protocol identifier (bytes 2 and 3) is unpacked and not used. The slice
  \<^verbatim>\<open>data[8:8+length-2]\<close> has the stop index \<open>8 + length - 2\<close>, which is at least 6.
\<close>

definition parse_modbus_request :: "byte list \<Rightarrow> request option" where
  "parse_modbus_request data =
     (if length data < 8 then None
      else
        let tid = unpack_H (data ! 0) (data ! 1);
            len = unpack_H (data ! 4) (data ! 5);
            uid = uint (data ! 6);
            fc = uint (data ! 7);
            request_data = py_slice data 8 (nat (8 + len - 2))
        in Some \<lparr>transaction_id = tid, unit_id = uid, function_code = fc,
                  req_data = request_data\<rparr>)"

text \<open>The MBAP length field of a buffer (bytes 4 and 5), for buffers of at least 6 bytes.\<close>

definition length_field :: "byte list \<Rightarrow> int" where
  "length_field data = unpack_H (data ! 4) (data ! 5)"

text \<open>
  The length field is consistent with the buffer when it counts exactly the bytes that
  follow it: the unit identifier, the function code and the payload.
\<close>

definition length_consistent :: "byte list \<Rightarrow> bool" where
  "length_consistent data \<longleftrightarrow> length_field data = int (length data) - 6"

section \<open>Codec: encoding a response\<close>

text \<open>
  One byte of packed coil values: bit \<open>b\<close> of byte \<open>i\<close> is set when the datum at
  index \<open>i * 8 + b\<close> exists and is true.
\<close>

definition pack_bits_byte :: "pyval list \<Rightarrow> nat \<Rightarrow> int" where
  "pack_bits_byte data i =
     foldl (\<lambda>byte_val b.
              if i * 8 + b < length data \<and> py_bool (data ! (i * 8 + b))
              then byte_val OR push_bit b 1 else byte_val)
           0 [0..<8]"

text \<open>The list comprehension-like loop \<^verbatim>\<open>register_data.append(int(value) & 0xFFFF)\<close>.\<close>

fun register_data :: "pyrt \<Rightarrow> pyval list \<Rightarrow> exn + int list" where
  "register_data rt [] = Inr []"
| "register_data rt (v # vs) =
     ebind (py_int rt v) (\<lambda>i. ebind (register_data rt vs) (\<lambda>is. Inr ((i AND 0xFFFF) # is)))"

text \<open>
  The part of \<^verbatim>\<open>create_modbus_response\<close> that builds the response body. It returns the
  function code as well, which the branch for an unsupported code replaces by
  \<^verbatim>\<open>function_code | 0x80\<close>.
\<close>

definition response_body :: "pyrt \<Rightarrow> int \<Rightarrow> pyval list \<Rightarrow> exn + int \<times> byte list" where
  "response_body rt fc data =
     (if fc = 1 \<or> fc = 2 then
        let byte_count = (length data + 7) div 8 in
        ebind (econcat (pack_B (int byte_count) #
                        map (\<lambda>i. pack_B (pack_bits_byte data i)) [0..<byte_count]))
          (\<lambda>body. Inr (fc, body))
      else if fc = 3 \<or> fc = 4 then
        ebind (register_data rt data) (\<lambda>regs.
          let byte_count = length regs * 2 in
          ebind (econcat (pack_B (int byte_count) # map pack_H regs))
            (\<lambda>body. Inr (fc, body)))
      else
        ebind (pack_B 0x01) (\<lambda>body. Inr (fc OR 0x80, body)))"

text \<open>
  The frame of the \<^verbatim>\<open>except\<close> branches:
  \<^verbatim>\<open>struct.pack('>HHHBB', transaction_id, 0, 3, unit_id, function_code | 0x80)\<close> followed
  by the one-byte exception code.
\<close>

definition exception_frame :: "int \<Rightarrow> int \<Rightarrow> int \<Rightarrow> int \<Rightarrow> exn + byte list" where
  "exception_frame tid uid fc code =
     econcat [pack_H tid, pack_H 0, pack_H 3, pack_B uid, pack_B (fc OR 0x80), pack_B code]"

text \<open>
  \<^verbatim>\<open>create_modbus_response\<close>. Any exception inside the \<^verbatim>\<open>try\<close> leads to the
  server-failure frame (code 4), built from the function code as it stands at that
  point; building that frame is outside the \<^verbatim>\<open>try\<close>, so a failure there propagates.
\<close>

definition create_modbus_response ::
  "pyrt \<Rightarrow> int \<Rightarrow> int \<Rightarrow> int \<Rightarrow> pyval list \<Rightarrow> exn + byte list" where
  "create_modbus_response rt tid uid fc data =
     (case response_body rt fc data of
        Inl e \<Rightarrow> exception_frame tid uid fc 0x04
      | Inr (fc', body) \<Rightarrow>
          (case econcat [pack_H tid, pack_H 0, pack_H (1 + 1 + int (length body)),
                         pack_B uid, pack_B fc', Inr body] of
             Inl e \<Rightarrow> exception_frame tid uid fc' 0x04
           | Inr full_response \<Rightarrow> Inr full_response))"

text \<open>
  A runtime for evaluating concrete scenarios in which none of the parameter builtins
  decides the outcome: no string is a number literal, integers round to themselves.
\<close>

definition plain_rt :: pyrt where
  "plain_rt = \<lparr>int_of_str = (\<lambda>s. None), float_of_str = (\<lambda>s. None),
                round_double = (\<lambda>r. r), str_of_float = (\<lambda>f. []),
                words_f = (\<lambda>f. (0, 0)), words_d = (\<lambda>f. (0, 0, 0, 0))\<rparr>"

section \<open>Generators of the configuration tool\<close>

text \<open>
  Python's \<^verbatim>\<open>%\<close> and \<^verbatim>\<open>//\<close> on numbers, for a divisor other than zero: the
  remainder has the sign of the divisor. On integers embedded in the reals they agree with
  \<open>mod\<close> and \<open>div\<close> of \<open>int\<close>.
\<close>

definition py_mod :: "real \<Rightarrow> real \<Rightarrow> real" where
  "py_mod x p = x - p * of_int \<lfloor>x / p\<rfloor>"

definition py_floordiv :: "real \<Rightarrow> real \<Rightarrow> real" where
  "py_floordiv x p = of_int \<lfloor>x / p\<rfloor>"

text \<open>
  \<^verbatim>\<open>create_robust_periodic_boolean_function(period)\<close> returns a closure that reads the
  clock; \<open>periodic_boolean_func period now\<close> is the result of calling that closure when
  \<^verbatim>\<open>time.time()\<close> is \<open>now\<close>. The period is a number: the integer 10 by default, the
  bit's interval (a float) when the tool installs a bit overlay; both are covered by a real
  period. A zero period raises \<^verbatim>\<open>ZeroDivisionError\<close>, modelled as \<open>OtherError\<close>.
\<close>

definition periodic_boolean_func :: "real \<Rightarrow> real \<Rightarrow> exn + int" where
  "periodic_boolean_func period now =
     (if period = 0 then Inl OtherError
      else Inr (if py_mod (of_int (trunc now)) period < py_floordiv period 2 then 1 else 0))"

section \<open>Producers and configuration entries\<close>

text \<open>
  A value producer is a Python callable. What the simulator observes of it: the number of
  parameters that \<^verbatim>\<open>inspect.signature\<close> reports (\<open>None\<close> when \<^verbatim>\<open>inspect.signature\<close>
  raises), whether its closure holds a one-element list with an integer (the test of the
  configuration tool for a random-increment counter; it depends on the closure's current
  contents), its \<^verbatim>\<open>str\<close>, and what a call does. A call takes the arguments and the state
  of everything outside the simulator that the callable can read or change (its closure
  cells, the random generator, the clock), of type \<open>'w\<close>; it returns a value or raises, and
  leaves a new outside state.
\<close>

datatype pyarg = Arg pyval | ArgSeq "pyval list"

record 'w producer =
  param_count :: "nat option"
  closure_int_cell :: "'w \<Rightarrow> bool"
  fn_repr :: pystr
  invoke :: "pyarg list \<Rightarrow> 'w \<Rightarrow> (exn + pyval) \<times> 'w"

text \<open>The \<^verbatim>\<open>value\<close> of an entry: a fixed value or a callable.\<close>

datatype 'w valspec = Fixed pyval | Callable "'w producer"

text \<open>
  A configuration entry, the dictionary that \<^verbatim>\<open>set_data_config\<close> and
  \<^verbatim>\<open>set_bit_config\<close> store. The key \<^verbatim>\<open>current_value\<close> is absent until the first
  value has been generated; \<^verbatim>\<open>description\<close> and \<^verbatim>\<open>is_bit_config\<close> exist in bit
  entries only (\<open>is_bit_config\<close> is \<open>False\<close> for the others, as
  \<^verbatim>\<open>config.get('is_bit_config', False)\<close> reads it). Times and intervals are seconds,
  as real numbers. A data range is a list.
\<close>

record 'w config =
  cfg_value :: "'w valspec"
  interval :: real
  last_update :: real
  data_range :: "pyval list option"
  data_type :: string
  current_value :: "pyval option"
  description :: "pystr option"
  is_bit_config :: bool

text \<open>\<^verbatim>\<open>config.get('current_value', config['value'])\<close>.\<close>

definition cached :: "'w config \<Rightarrow> 'w valspec" where
  "cached cfg = (case current_value cfg of Some v \<Rightarrow> Fixed v | None \<Rightarrow> cfg_value cfg)"

text \<open>The builtins on an object that may be a callable.\<close>

fun obj_int :: "pyrt \<Rightarrow> 'w valspec \<Rightarrow> exn + int" where
  "obj_int rt (Fixed v) = py_int rt v"
| "obj_int rt (Callable f) = Inl TypeError"

fun obj_float :: "pyrt \<Rightarrow> 'w valspec \<Rightarrow> exn + pyfloat" where
  "obj_float rt (Fixed v) = py_float rt v"
| "obj_float rt (Callable f) = Inl TypeError"

fun obj_bool :: "'w valspec \<Rightarrow> bool" where
  "obj_bool (Fixed v) = py_bool v"
| "obj_bool (Callable f) = True"

fun obj_str :: "pyrt \<Rightarrow> 'w valspec \<Rightarrow> pystr" where
  "obj_str rt (Fixed v) = py_str rt v"
| "obj_str rt (Callable f) = fn_repr f"

text \<open>\<^verbatim>\<open>isinstance(x, (int, float))\<close>; a \<^verbatim>\<open>bool\<close> is an \<^verbatim>\<open>int\<close>.\<close>

fun is_int_or_float :: "'w valspec \<Rightarrow> bool" where
  "is_int_or_float (Fixed (PInt i)) = True"
| "is_int_or_float (Fixed (PBool b)) = True"
| "is_int_or_float (Fixed (PFloat f)) = True"
| "is_int_or_float (Fixed (PStr s)) = False"
| "is_int_or_float (Fixed PNone) = False"
| "is_int_or_float (Callable f) = False"

section \<open>TypePacker\<close>

text \<open>
  The \<^verbatim>\<open>try\<close> body of \<^verbatim>\<open>convert_to_data_type\<close>, one branch per type name in the
  source's order; an unknown name is treated as \<^verbatim>\<open>int16\<close>.
\<close>

definition convert_raw :: "pyrt \<Rightarrow> pyval \<Rightarrow> string \<Rightarrow> exn + pyval" where
  "convert_raw rt v dt =
     (if dt = ''int16'' then ebind (py_int rt v) (\<lambda>i. Inr (PInt (i AND 0xFFFF)))
      else if dt = ''uint16'' then ebind (py_int rt v) (\<lambda>i. Inr (PInt (i AND 0xFFFF)))
      else if dt = ''int32'' then ebind (py_int rt v) (\<lambda>i. Inr (PInt i))
      else if dt = ''uint32'' then ebind (py_int rt v) (\<lambda>i. Inr (PInt (i AND 0xFFFFFFFF)))
      else if dt = ''float32'' then ebind (py_float rt v) (\<lambda>f. Inr (PFloat f))
      else if dt = ''float64'' then ebind (py_float rt v) (\<lambda>f. Inr (PFloat f))
      else if dt = ''bool'' then Inr (PBool (py_bool v))
      else if dt = ''string'' then Inr (PStr (py_str rt v))
      else ebind (py_int rt v) (\<lambda>i. Inr (PInt (i AND 0xFFFF))))"

text \<open>
  \<^verbatim>\<open>convert_to_data_type\<close>: \<^verbatim>\<open>except (ValueError, TypeError)\<close> returns the integer 0;
  any other exception propagates.
\<close>

definition convert_to_data_type :: "pyrt \<Rightarrow> pyval \<Rightarrow> string \<Rightarrow> exn + pyval" where
  "convert_to_data_type rt v dt =
     (case convert_raw rt v dt of
        Inl ValueError \<Rightarrow> Inr (PInt 0)
      | Inl TypeError \<Rightarrow> Inr (PInt 0)
      | Inl e \<Rightarrow> Inl e
      | Inr x \<Rightarrow> Inr x)"

text \<open>
  \<^verbatim>\<open>struct.pack('>f', x)\<close> raises \<^verbatim>\<open>OverflowError\<close> when a finite \<open>x\<close> rounds to an
  infinite single-precision value, that is from \<open>2^128 - 2^103\<close> on in absolute value.
\<close>

definition struct_pack_f :: "pyrt \<Rightarrow> pyfloat \<Rightarrow> exn + int \<times> int" where
  "struct_pack_f rt f =
     (case f of
        Finite r \<Rightarrow> if 2 ^ 128 - 2 ^ 103 \<le> \<bar>r\<bar> then Inl OverflowError else Inr (words_f rt f)
      | _ \<Rightarrow> Inr (words_f rt f))"

text \<open>The \<^verbatim>\<open>try\<close> body of \<^verbatim>\<open>pack_value_to_registers\<close>.\<close>

definition pack_raw :: "pyrt \<Rightarrow> 'w valspec \<Rightarrow> string \<Rightarrow> exn + int list" where
  "pack_raw rt v dt =
     (if dt = ''int16'' then ebind (obj_int rt v) (\<lambda>i. Inr [i AND 0xFFFF])
      else if dt = ''uint16'' then ebind (obj_int rt v) (\<lambda>i. Inr [i AND 0xFFFF])
      else if dt = ''int32'' then
        ebind (obj_int rt v) (\<lambda>int_val. Inr [drop_bit 16 int_val AND 0xFFFF, int_val AND 0xFFFF])
      else if dt = ''uint32'' then
        ebind (obj_int rt v) (\<lambda>i. let uint_val = i AND 0xFFFFFFFF
                                 in Inr [drop_bit 16 uint_val AND 0xFFFF, uint_val AND 0xFFFF])
      else if dt = ''float32'' then
        ebind (obj_float rt v) (\<lambda>float_val.
          ebind (struct_pack_f rt float_val) (\<lambda>(a, b). Inr [a, b]))
      else if dt = ''float64'' then
        ebind (obj_float rt v) (\<lambda>double_val.
          case words_d rt double_val of (a, b, c, d) \<Rightarrow> Inr [a, b, c, d])
      else if dt = ''bool'' then Inr [if obj_bool v then 1 else 0]
      else if dt = ''string'' then
        Inr (map (\<lambda>char. int char AND 0xFFFF) (take 125 (obj_str rt v)))
      else ebind (obj_int rt v) (\<lambda>i. Inr [i AND 0xFFFF]))"

text \<open>\<^verbatim>\<open>pack_value_to_registers\<close>: any exception gives the one register 0.\<close>

definition pack_value_to_registers :: "pyrt \<Rightarrow> 'w valspec \<Rightarrow> string \<Rightarrow> int list" where
  "pack_value_to_registers rt v dt = (case pack_raw rt v dt of Inl e \<Rightarrow> [0] | Inr regs \<Rightarrow> regs)"

text \<open>\<^verbatim>\<open>get_register_count\<close> packs the sample value 0.\<close>

definition get_register_count :: "pyrt \<Rightarrow> string \<Rightarrow> nat" where
  "get_register_count rt dt =
     length (pack_value_to_registers rt (Fixed (PInt 0) :: unit valspec) dt)"

section \<open>Value generation\<close>

text \<open>
  The call of the producer in \<^verbatim>\<open>generate_data\<close> of \<^verbatim>\<open>ModbusTCPSimulator\<close>: the
  arguments depend on the parameter count and on whether a data range is configured
  (\<^verbatim>\<open>if config['data_range']\<close>: neither \<^verbatim>\<open>None\<close> nor empty). A range with one element
  raises \<^verbatim>\<open>IndexError\<close> at \<^verbatim>\<open>data_range[1]\<close>.
\<close>

definition call_producer ::
  "'w producer \<Rightarrow> pyval list option \<Rightarrow> 'w \<Rightarrow> (exn + pyval) \<times> 'w" where
  "call_producer f dr w =
     (case param_count f of
        None \<Rightarrow> (Inl ValueError, w)
      | Some n \<Rightarrow>
          (case dr of
             Some (lo # rest) \<Rightarrow>
               if n = 2 then
                 (case rest of [] \<Rightarrow> (Inl IndexError, w)
                  | hi # _ \<Rightarrow> invoke f [Arg lo, Arg hi] w)
               else if n = 1 then invoke f [ArgSeq (lo # rest)] w
               else invoke f [] w
           | _ \<Rightarrow> invoke f [] w))"

text \<open>
  Either branch of \<^verbatim>\<open>generate_data\<close> (the branch for bit entries repeats the other
  one). For a callable everything is inside \<^verbatim>\<open>try ... except Exception\<close>, which returns
  the conversion of 0; a fixed value is converted outside any \<^verbatim>\<open>try\<close>.
\<close>

definition generate_value :: "pyrt \<Rightarrow> 'w config \<Rightarrow> 'w \<Rightarrow> (exn + pyval) \<times> 'w" where
  "generate_value rt config w =
     (case cfg_value config of
        Callable f \<Rightarrow>
          (case call_producer f (data_range config) w of
             (Inl e, w') \<Rightarrow> (convert_to_data_type rt (PInt 0) (data_type config), w')
           | (Inr raw_value, w') \<Rightarrow>
               (case convert_to_data_type rt raw_value (data_type config) of
                  Inl e \<Rightarrow> (convert_to_data_type rt (PInt 0) (data_type config), w')
                | Inr x \<Rightarrow> (Inr x, w')))
      | Fixed v \<Rightarrow> (convert_to_data_type rt v (data_type config), w))"

text \<open>\<^verbatim>\<open>ModbusTCPSimulator.generate_data\<close>; the time argument is not used.\<close>

definition generate_data :: "pyrt \<Rightarrow> 'w config \<Rightarrow> real \<Rightarrow> 'w \<Rightarrow> (exn + pyval) \<times> 'w" where
  "generate_data rt config current_time w =
     (if is_bit_config config then generate_value rt config w else generate_value rt config w)"

subsection \<open>The override of the configuration tool\<close>

text \<open>
  Comparison of Python values with \<^verbatim>\<open><\<close>: numbers (integers, booleans, floats) compare
  by value, a NaN compares false with everything, strings compare lexicographically by code
  point, and any other pair raises \<^verbatim>\<open>TypeError\<close>.
\<close>

fun num_of :: "pyval \<Rightarrow> pyfloat option" where
  "num_of (PInt i) = Some (Finite (real_of_int i))"
| "num_of (PBool b) = Some (Finite (if b then 1 else 0))"
| "num_of (PFloat f) = Some f"
| "num_of (PStr s) = None"
| "num_of PNone = None"

fun fl_less :: "pyfloat \<Rightarrow> pyfloat \<Rightarrow> bool" where
  "fl_less NaN y = False"
| "fl_less x NaN = False"
| "fl_less (Finite a) (Finite b) = (a < b)"
| "fl_less (Finite a) PosInf = True"
| "fl_less (Finite a) NegInf = False"
| "fl_less PosInf y = False"
| "fl_less NegInf NegInf = False"
| "fl_less NegInf y = True"

fun str_less :: "pystr \<Rightarrow> pystr \<Rightarrow> bool" where
  "str_less [] [] = False"
| "str_less [] (y # ys) = True"
| "str_less (x # xs) [] = False"
| "str_less (x # xs) (y # ys) = (x < y \<or> (x = y \<and> str_less xs ys))"

definition py_less :: "pyval \<Rightarrow> pyval \<Rightarrow> exn + bool" where
  "py_less a b =
     (case (num_of a, num_of b) of
        (Some x, Some y) \<Rightarrow> Inr (fl_less x y)
      | _ \<Rightarrow> (case (a, b) of (PStr s, PStr t) \<Rightarrow> Inr (str_less s t) | _ \<Rightarrow> Inl TypeError))"

text \<open>
  \<^verbatim>\<open>min(a, b)\<close> keeps \<open>a\<close> unless \<open>b < a\<close>; \<^verbatim>\<open>max(a, b)\<close> keeps \<open>a\<close> unless \<open>b > a\<close>.
\<close>

definition py_min :: "pyval \<Rightarrow> pyval \<Rightarrow> exn + pyval" where
  "py_min a b = ebind (py_less b a) (\<lambda>lt. Inr (if lt then b else a))"

definition py_max :: "pyval \<Rightarrow> pyval \<Rightarrow> exn + pyval" where
  "py_max a b = ebind (py_less a b) (\<lambda>gt. Inr (if gt then b else a))"

text \<open>The substring test \<^verbatim>\<open>needle in hay\<close> on strings.\<close>

fun starts_with :: "pystr \<Rightarrow> pystr \<Rightarrow> bool" where
  "starts_with [] hay = True"
| "starts_with (x # xs) [] = False"
| "starts_with (x # xs) (y # ys) = (x = y \<and> starts_with xs ys)"

fun str_contains :: "pystr \<Rightarrow> pystr \<Rightarrow> bool" where
  "str_contains needle [] = starts_with needle []"
| "str_contains needle (y # ys) = (starts_with needle (y # ys) \<or> str_contains needle ys)"

text \<open>The code points of the description tag of a random-increment counter.\<close>

definition random_increment_tag :: pystr where
  "random_increment_tag = [38543, 26426, 36882, 22686, 35745, 25968]"

text \<open>
  The range check that the override applies to the result of a producer without
  parameters when a data range of one or two elements is configured: a result outside
  the range is forced into it, unless the entry is recognised as a random-increment
  counter (by its description or by its closure). The comparisons can raise.
\<close>

definition clamp_to_range ::
  "'w producer \<Rightarrow> 'w config \<Rightarrow> pyval \<Rightarrow> pyval list \<Rightarrow> pyval \<Rightarrow> 'w \<Rightarrow> exn + pyval" where
  "clamp_to_range f config lo rest result w =
     ebind (py_less result lo) (\<lambda>below.
       ebind (if below then Inr True
              else (case rest of [] \<Rightarrow> Inl IndexError | hi # _ \<Rightarrow> py_less hi result))
         (\<lambda>outside.
            if outside then
              (if str_contains random_increment_tag
                    (case description config of None \<Rightarrow> [] | Some d \<Rightarrow> d)
                  \<or> closure_int_cell f w
               then Inr result
               else (case rest of [] \<Rightarrow> Inl IndexError
                     | hi # _ \<Rightarrow> ebind (py_min hi result) (\<lambda>m. py_max lo m)))
            else Inr result))"

definition call_producer_ext ::
  "'w producer \<Rightarrow> 'w config \<Rightarrow> 'w \<Rightarrow> (exn + pyval) \<times> 'w" where
  "call_producer_ext f config w =
     (case param_count f of
        None \<Rightarrow> (Inl ValueError, w)
      | Some n \<Rightarrow>
          (case data_range config of
             Some (lo # rest) \<Rightarrow>
               if length (lo # rest) > 2 then invoke f [] w
               else if n = 2 then
                 (case rest of [] \<Rightarrow> (Inl IndexError, w)
                  | hi # _ \<Rightarrow> invoke f [Arg lo, Arg hi] w)
               else if n = 1 then invoke f [ArgSeq (lo # rest)] w
               else
                 (case invoke f [] w of
                    (Inl e, w') \<Rightarrow> (Inl e, w')
                  | (Inr result, w') \<Rightarrow> (clamp_to_range f config lo rest result w', w'))
           | _ \<Rightarrow> invoke f [] w))"

text \<open>\<^verbatim>\<open>ExtendedModbusTCPSimulator.generate_data\<close>.\<close>

definition generate_data_ext ::
  "pyrt \<Rightarrow> 'w config \<Rightarrow> real \<Rightarrow> 'w \<Rightarrow> (exn + pyval) \<times> 'w" where
  "generate_data_ext rt config current_time w =
     (case cfg_value config of
        Callable f \<Rightarrow>
          (case call_producer_ext f config w of
             (Inl e, w') \<Rightarrow> (convert_to_data_type rt (PInt 0) (data_type config), w')
           | (Inr result, w') \<Rightarrow>
               (case convert_to_data_type rt result (data_type config) of
                  Inl e \<Rightarrow> (convert_to_data_type rt (PInt 0) (data_type config), w')
                | Inr x \<Rightarrow> (Inr x, w')))
      | Fixed v \<Rightarrow> (convert_to_data_type rt v (data_type config), w))"

text \<open>
  Which \<^verbatim>\<open>generate_data\<close> a call of \<^verbatim>\<open>self.generate_data\<close> reaches depends on the
  class of the simulator object.
\<close>

datatype sim_class = ModbusTCPSimulator | ExtendedModbusTCPSimulator

type_synonym 'w generator = "'w config \<Rightarrow> real \<Rightarrow> 'w \<Rightarrow> (exn + pyval) \<times> 'w"

fun generate_data_of :: "sim_class \<Rightarrow> pyrt \<Rightarrow> 'w generator" where
  "generate_data_of ModbusTCPSimulator rt = generate_data rt"
| "generate_data_of ExtendedModbusTCPSimulator rt = generate_data_ext rt"

section \<open>The simulator's state and the configuration-ingest operations\<close>

text \<open>
  The four address spaces. The dictionaries \<^verbatim>\<open>data_config\<close> and \<^verbatim>\<open>bit_config\<close> always
  have the same keys (four space names, two space names), so they are functions on the
  spaces; \<open>bit_config\<close> is used on the two register spaces only. Each space holds a
  dictionary from address to entry, in insertion order; a bit overlay is a dictionary from
  bit index to entry.
\<close>

datatype space = Coils | DiscreteInputs | HoldingRegisters | InputRegisters

definition space_of_name :: "string \<Rightarrow> space option" where
  "space_of_name name =
     (if name = ''coils'' then Some Coils
      else if name = ''discrete_inputs'' then Some DiscreteInputs
      else if name = ''holding_registers'' then Some HoldingRegisters
      else if name = ''input_registers'' then Some InputRegisters
      else None)"

definition has_bit_config :: "space \<Rightarrow> bool" where
  "has_bit_config sp \<longleftrightarrow> sp = HoldingRegisters \<or> sp = InputRegisters"

type_synonym 'w entries = "(int \<times> 'w config) list"
type_synonym 'w overlays = "(int \<times> (int \<times> 'w config) list) list"

record 'w sim =
  data_config :: "space \<Rightarrow> 'w entries"
  bit_config :: "space \<Rightarrow> 'w overlays"
  world :: 'w

text \<open>
  The two steps that follow every installation and every due refresh:
  \<^verbatim>\<open>config['last_update'] = current_time\<close>, then
  \<^verbatim>\<open>config['current_value'] = self.generate_data(config, current_time)\<close>. When
  \<^verbatim>\<open>generate_data\<close> raises, the time stamp has been written and the value has not.
\<close>

definition regenerate ::
  "'w generator \<Rightarrow> real \<Rightarrow> 'w config \<Rightarrow> 'w \<Rightarrow> exn option \<times> 'w config \<times> 'w" where
  "regenerate gen current_time config w =
     (let config1 = config\<lparr>last_update := current_time\<rparr> in
      case gen config1 current_time w of
        (Inl e, w') \<Rightarrow> (Some e, config1, w')
      | (Inr v, w') \<Rightarrow> (None, config1\<lparr>current_value := Some v\<rparr>, w'))"

text \<open>
  \<^verbatim>\<open>set_data_config\<close>; \<open>current_time\<close> is the reading of \<^verbatim>\<open>time.time()\<close>. The result
  \<open>Some e\<close> is the exception raised, \<open>None\<close> a normal return; the state is the one left
  behind in either case.
\<close>

definition set_data_config ::
  "'w generator \<Rightarrow> string \<Rightarrow> int \<Rightarrow> 'w valspec \<Rightarrow> real \<Rightarrow> pyval list option \<Rightarrow> string \<Rightarrow>
   real \<Rightarrow> ('w, 'z) sim_scheme \<Rightarrow> exn option \<times> ('w, 'z) sim_scheme" where
  "set_data_config gen address_type address v ival drange dtype current_time s =
     (case space_of_name address_type of
        None \<Rightarrow> (Some ValueError, s)
      | Some sp \<Rightarrow>
          let config = \<lparr>cfg_value = v, interval = ival, last_update = 0, data_range = drange,
                        data_type = dtype, current_value = None, description = None,
                        is_bit_config = False\<rparr>
          in case regenerate gen current_time config (world s) of
               (r, config', w') \<Rightarrow>
                 (r, s\<lparr>data_config := (data_config s)(sp := AList.update address config'
                                                             (data_config s sp)),
                        world := w'\<rparr>))"

text \<open>
  One item of the argument of \<^verbatim>\<open>set_bit_config\<close>: a dictionary whose keys
  \<^verbatim>\<open>value\<close>, \<^verbatim>\<open>interval\<close>, \<^verbatim>\<open>data_range\<close> and \<^verbatim>\<open>description\<close> are optional.
\<close>

record 'w bit_item =
  item_value :: "'w valspec option"
  item_interval :: "real option"
  item_data_range :: "pyval list option"
  item_description :: "pystr option"

definition bit_entry :: "int \<Rightarrow> 'w bit_item \<Rightarrow> 'w config" where
  "bit_entry b item =
     \<lparr>cfg_value = (case item_value item of None \<Rightarrow> Fixed (PInt 0) | Some v \<Rightarrow> v),
      interval = (case item_interval item of None \<Rightarrow> 1 | Some i \<Rightarrow> i),
      last_update = 0,
      data_range = item_data_range item,
      data_type = ''bool'',
      current_value = None,
      description = Some (case item_description item of
                            None \<Rightarrow> [66, 105, 116] @ str_of_int b
                          | Some d \<Rightarrow> d),
      is_bit_config = True\<rparr>"

text \<open>
  The loop of \<^verbatim>\<open>set_bit_config\<close> over the items, on the overlay of one address. The
  clock is read once per item: \<open>clock b\<close> is the reading taken for the item \<open>b\<close>. A bit
  index outside 0..15 raises after the items before it have been installed.
\<close>

fun install_bits ::
  "'w generator \<Rightarrow> (int \<Rightarrow> real) \<Rightarrow> (int \<times> 'w bit_item) list \<Rightarrow> (int \<times> 'w config) list \<Rightarrow> 'w \<Rightarrow>
   exn option \<times> (int \<times> 'w config) list \<times> 'w" where
  "install_bits gen clock [] overlay w = (None, overlay, w)"
| "install_bits gen clock ((b, item) # items) overlay w =
     (if b < 0 \<or> b > 15 then (Some ValueError, overlay, w)
      else
        case regenerate gen (clock b) (bit_entry b item) w of
          (Some e, config', w') \<Rightarrow> (Some e, AList.update b config' overlay, w')
        | (None, config', w') \<Rightarrow>
            install_bits gen clock items (AList.update b config' overlay) w')"

text \<open>\<^verbatim>\<open>set_bit_config\<close>.\<close>

definition set_bit_config ::
  "'w generator \<Rightarrow> string \<Rightarrow> int \<Rightarrow> (int \<times> 'w bit_item) list \<Rightarrow> (int \<Rightarrow> real) \<Rightarrow>
   ('w, 'z) sim_scheme \<Rightarrow> exn option \<times> ('w, 'z) sim_scheme" where
  "set_bit_config gen address_type address bit_configs clock s =
     (case space_of_name address_type of
        None \<Rightarrow> (Some ValueError, s)
      | Some sp \<Rightarrow>
          if \<not> has_bit_config sp then (Some ValueError, s)
          else
            let overlay = (case map_of (bit_config s sp) address of None \<Rightarrow> [] | Some b \<Rightarrow> b)
            in case install_bits gen clock bit_configs overlay (world s) of
                 (r, overlay', w') \<Rightarrow>
                   (r, s\<lparr>bit_config := (bit_config s)(sp := AList.update address overlay'
                                                             (bit_config s sp)),
                          world := w'\<rparr>))"

section \<open>RegisterStore: reads\<close>

text \<open>
  Refresh-if-due, the test that the source repeats before every use of an entry:
  \<^verbatim>\<open>if current_time - config['last_update'] >= config['interval']\<close>.
\<close>

definition refresh_if_due ::
  "'w generator \<Rightarrow> real \<Rightarrow> 'w config \<Rightarrow> 'w \<Rightarrow> exn option \<times> 'w config \<times> 'w" where
  "refresh_if_due gen current_time config w =
     (if current_time - last_update config \<ge> interval config
      then regenerate gen current_time config w
      else (None, config, w))"

text \<open>
  The slice assignment \<^verbatim>\<open>xs[i:j] = ys\<close> for \<open>0 \<le> i\<close> and \<open>0 \<le> j\<close>: the elements from
  \<open>i\<close> up to \<open>j\<close> (none when \<open>j \<le> i\<close>) are replaced by \<open>ys\<close>, whatever the length of \<open>ys\<close>.
\<close>

definition slice_assign :: "'a list \<Rightarrow> nat \<Rightarrow> nat \<Rightarrow> 'a list \<Rightarrow> 'a list" where
  "slice_assign xs i j ys = take i xs @ ys @ drop (max i j) xs"

text \<open>
  The loop over the addresses of a coil or discrete-input read, with the response list as
  accumulator.
\<close>

fun read_coils ::
  "'w generator \<Rightarrow> real \<Rightarrow> int list \<Rightarrow> 'w entries \<Rightarrow> bool list \<Rightarrow> 'w \<Rightarrow>
   exn option \<times> 'w entries \<times> bool list \<times> 'w" where
  "read_coils gen current_time [] dc response_data w = (None, dc, response_data, w)"
| "read_coils gen current_time (addr # addrs) dc response_data w =
     (case map_of dc addr of
        Some config \<Rightarrow>
          (case refresh_if_due gen current_time config w of
             (Some e, config', w') \<Rightarrow> (Some e, AList.update addr config' dc, response_data, w')
           | (None, config', w') \<Rightarrow>
               read_coils gen current_time addrs (AList.update addr config' dc)
                 (response_data @ [obj_bool (cached config')]) w')
      | None \<Rightarrow> read_coils gen current_time addrs dc (response_data @ [False]) w)"

text \<open>
  One iteration of the loop over the entries of a register space: an entry whose address
  lies in the window writes its packed registers from its position on, cut at the end of
  the window; an entry that starts before the window and reaches into it, by the register
  count of its type, writes its packed registers without the leading ones at the start of
  the window.
\<close>

definition read_entry ::
  "'w generator \<Rightarrow> pyrt \<Rightarrow> real \<Rightarrow> int \<Rightarrow> nat \<Rightarrow> int \<Rightarrow> 'w config \<Rightarrow> int list \<Rightarrow> 'w \<Rightarrow>
   exn option \<times> 'w config \<times> int list \<times> 'w" where
  "read_entry gen rt current_time start_address quantity addr config response_data w =
     (if addr \<ge> start_address \<and> addr < start_address + int quantity then
        (case refresh_if_due gen current_time config w of
           (Some e, config', w') \<Rightarrow> (Some e, config', response_data, w')
         | (None, config', w') \<Rightarrow>
             let registers = pack_value_to_registers rt (cached config') (data_type config');
                 n = length registers;
                 start_index = nat (addr - start_address);
                 end_index = start_index + n
             in if end_index \<le> quantity
                then (None, config',
                      slice_assign response_data start_index end_index registers, w')
                else (None, config',
                      slice_assign response_data start_index quantity
                        (take (quantity - start_index) registers), w'))
      else
        let register_count = get_register_count rt (data_type config);
            config_end_addr = addr + int register_count - 1
        in if addr < start_address \<and> config_end_addr \<ge> start_address then
             (case refresh_if_due gen current_time config w of
                (Some e, config', w') \<Rightarrow> (Some e, config', response_data, w')
              | (None, config', w') \<Rightarrow>
                  let registers = pack_value_to_registers rt (cached config') (data_type config);
                      overlap_start = nat (start_address - addr);
                      registers_to_copy = drop overlap_start registers;
                      copy_count = min (length registers_to_copy) quantity
                  in (None, config',
                      slice_assign response_data 0 copy_count (take copy_count registers_to_copy),
                      w'))
           else (None, config, response_data, w))"

text \<open>
  The loop \<^verbatim>\<open>for addr, config in self.data_config[address_type].items()\<close>, in the
  dictionary's order. Each iteration changes its own entry only.
\<close>

fun read_entries ::
  "'w generator \<Rightarrow> pyrt \<Rightarrow> real \<Rightarrow> int \<Rightarrow> nat \<Rightarrow> 'w entries \<Rightarrow> int list \<Rightarrow> 'w \<Rightarrow>
   exn option \<times> 'w entries \<times> int list \<times> 'w" where
  "read_entries gen rt current_time start_address quantity [] response_data w =
     (None, [], response_data, w)"
| "read_entries gen rt current_time start_address quantity ((addr, config) # rest)
     response_data w =
     (case read_entry gen rt current_time start_address quantity addr config response_data w of
        (Some e, config', response_data', w') \<Rightarrow>
          (Some e, (addr, config') # rest, response_data', w')
      | (None, config', response_data', w') \<Rightarrow>
          (case read_entries gen rt current_time start_address quantity rest response_data' w' of
             (r, rest', response_data'', w'') \<Rightarrow>
               (r, (addr, config') # rest', response_data'', w'')))"

text \<open>\<^verbatim>\<open>self.bit_config.get(address_type, {})\<close>.\<close>

definition overlays_of :: "('w, 'z) sim_scheme \<Rightarrow> space \<Rightarrow> 'w overlays" where
  "overlays_of s sp = (if has_bit_config sp then bit_config s sp else [])"

text \<open>
  The base value of a register with bit overlay: the cached value of the entry as a
  16-bit integer when it is a number (\<^verbatim>\<open>int\<close> raises on an infinity or a NaN), and 0
  otherwise.
\<close>

definition base_register :: "pyrt \<Rightarrow> 'w valspec \<Rightarrow> exn + int" where
  "base_register rt base_value =
     (if is_int_or_float base_value
      then ebind (obj_int rt base_value) (\<lambda>i. Inr (i AND 0xFFFF))
      else Inr 0)"

text \<open>
  The loop over the bits of an overlay: each bit is refreshed if due, and sets or clears
  its position in the register value. A negative shift count raises \<^verbatim>\<open>ValueError\<close>.
\<close>

fun apply_bits ::
  "'w generator \<Rightarrow> real \<Rightarrow> (int \<times> 'w config) list \<Rightarrow> int \<Rightarrow> 'w \<Rightarrow>
   exn option \<times> (int \<times> 'w config) list \<times> int \<times> 'w" where
  "apply_bits gen current_time [] register_value w = (None, [], register_value, w)"
| "apply_bits gen current_time ((b, config) # rest) register_value w =
     (case refresh_if_due gen current_time config w of
        (Some e, config', w') \<Rightarrow> (Some e, (b, config') # rest, register_value, w')
      | (None, config', w') \<Rightarrow>
          if b < 0 then (Some ValueError, (b, config') # rest, register_value, w')
          else
            let register_value' =
                  (if obj_bool (cached config')
                   then register_value OR push_bit (nat b) 1
                   else register_value AND NOT (push_bit (nat b) 1))
            in case apply_bits gen current_time rest register_value' w' of
                 (r, rest', register_value'', w'') \<Rightarrow>
                   (r, (b, config') # rest', register_value'', w''))"

text \<open>The second half of \<^verbatim>\<open>generate_register_with_bits\<close>: the overlay, if there is one.\<close>

definition overlay_register ::
  "'w generator \<Rightarrow> space \<Rightarrow> int \<Rightarrow> real \<Rightarrow> int \<Rightarrow> ('w, 'z) sim_scheme \<Rightarrow>
   (exn + int) \<times> ('w, 'z) sim_scheme" where
  "overlay_register gen sp address current_time register_value s =
     (case map_of (overlays_of s sp) address of
        None \<Rightarrow> (Inr register_value, s)
      | Some overlay \<Rightarrow>
          (case apply_bits gen current_time overlay register_value (world s) of
             (r, overlay', register_value', w') \<Rightarrow>
               ((case r of Some e \<Rightarrow> Inl e | None \<Rightarrow> Inr register_value'),
                s\<lparr>bit_config := (bit_config s)(sp := AList.update address overlay'
                                                      (bit_config s sp)),
                  world := w'\<rparr>)))"

text \<open>\<^verbatim>\<open>generate_register_with_bits\<close>.\<close>

definition generate_register_with_bits ::
  "'w generator \<Rightarrow> pyrt \<Rightarrow> space \<Rightarrow> int \<Rightarrow> real \<Rightarrow> ('w, 'z) sim_scheme \<Rightarrow>
   (exn + int) \<times> ('w, 'z) sim_scheme" where
  "generate_register_with_bits gen rt sp address current_time s =
     (case map_of (data_config s sp) address of
        Some config \<Rightarrow>
          (case refresh_if_due gen current_time config (world s) of
             (r, config', w') \<Rightarrow>
               let s1 = s\<lparr>data_config := (data_config s)(sp := AList.update address config'
                                                              (data_config s sp)),
                          world := w'\<rparr>
               in case r of
                    Some e \<Rightarrow> (Inl e, s1)
                  | None \<Rightarrow>
                      (case base_register rt (cached config') of
                         Inl e \<Rightarrow> (Inl e, s1)
                       | Inr register_value \<Rightarrow>
                           overlay_register gen sp address current_time register_value s1))
      | None \<Rightarrow> overlay_register gen sp address current_time 0 s)"

text \<open>
  The loop \<^verbatim>\<open>for i in range(quantity)\<close> that replaces the word of every address with a
  bit overlay; an index outside the response list raises \<^verbatim>\<open>IndexError\<close>.
\<close>

fun overlay_loop ::
  "'w generator \<Rightarrow> pyrt \<Rightarrow> space \<Rightarrow> int \<Rightarrow> real \<Rightarrow> nat list \<Rightarrow> int list \<Rightarrow>
   ('w, 'z) sim_scheme \<Rightarrow> exn option \<times> int list \<times> ('w, 'z) sim_scheme" where
  "overlay_loop gen rt sp start_address current_time [] response_data s =
     (None, response_data, s)"
| "overlay_loop gen rt sp start_address current_time (i # is) response_data s =
     (let addr = start_address + int i in
      case map_of (overlays_of s sp) addr of
        None \<Rightarrow> overlay_loop gen rt sp start_address current_time is response_data s
      | Some overlay \<Rightarrow>
          (case generate_register_with_bits gen rt sp addr current_time s of
             (Inl e, s') \<Rightarrow> (Some e, response_data, s')
           | (Inr register_value, s') \<Rightarrow>
               if i < length response_data
               then overlay_loop gen rt sp start_address current_time is
                      (response_data[i := register_value]) s'
               else (Some IndexError, response_data, s')))"

text \<open>The two dictionaries at the start of \<^verbatim>\<open>handle_read_request\<close>.\<close>

definition address_type_map :: "int \<Rightarrow> space option" where
  "address_type_map fc =
     (if fc = 1 then Some Coils
      else if fc = 2 then Some DiscreteInputs
      else if fc = 3 then Some HoldingRegisters
      else if fc = 4 then Some InputRegisters
      else None)"

definition max_quantity :: "int \<Rightarrow> nat" where
  "max_quantity fc = (if fc = 1 then 2000 else if fc = 2 then 2000 else 125)"

text \<open>
  \<^verbatim>\<open>handle_read_request\<close>, with the reading \<open>current_time\<close> of the clock. The response
  data are booleans for the function codes 1 and 2 and integers for 3 and 4. The state
  returned with an exception is the one that the exception leaves behind.
\<close>

definition handle_read_request ::
  "'w generator \<Rightarrow> pyrt \<Rightarrow> int \<Rightarrow> int \<Rightarrow> nat \<Rightarrow> real \<Rightarrow> ('w, 'z) sim_scheme \<Rightarrow>
   (exn + pyval list) \<times> ('w, 'z) sim_scheme" where
  "handle_read_request gen rt fc start_address quantity0 current_time s =
     (case address_type_map fc of
        None \<Rightarrow> (Inr [], s)
      | Some sp \<Rightarrow>
          let quantity = (if quantity0 > max_quantity fc then max_quantity fc else quantity0) in
          if fc = 1 \<or> fc = 2 then
            (case read_coils gen current_time
                    (map (\<lambda>i. start_address + int i) [0..<quantity]) (data_config s sp) []
                    (world s) of
               (r, dc', response_data, w') \<Rightarrow>
                 ((case r of Some e \<Rightarrow> Inl e | None \<Rightarrow> Inr (map PBool response_data)),
                  s\<lparr>data_config := (data_config s)(sp := dc'), world := w'\<rparr>))
          else
            (case read_entries gen rt current_time start_address quantity (data_config s sp)
                    (replicate quantity 0) (world s) of
               (r, dc', response_data, w') \<Rightarrow>
                 let s1 = s\<lparr>data_config := (data_config s)(sp := dc'), world := w'\<rparr> in
                 case r of
                   Some e \<Rightarrow> (Inl e, s1)
                 | None \<Rightarrow>
                     (case overlay_loop gen rt sp start_address current_time [0..<quantity]
                             response_data s1 of
                        (Some e, response_data', s2) \<Rightarrow> (Inl e, s2)
                      | (None, response_data', s2) \<Rightarrow> (Inr (map PInt response_data'), s2))))"

section \<open>Server: one request\<close>


section \<open>Snapshot and reset\<close>

text \<open>
  The attribute \<^verbatim>\<open>original_data_config\<close> of \<^verbatim>\<open>ExtendedModbusTCPSimulator\<close>: the empty
  dictionary of \<^verbatim>\<open>__init__\<close> (false as a condition), a deep copy of \<^verbatim>\<open>data_config\<close>, or,
  after a reset, the very object that \<^verbatim>\<open>data_config\<close> refers to. A deep copy copies the
  entries and keeps the producers, which are functions, as they are.
\<close>

datatype 'w snapshot = NoSnapshot | Snapshot "space \<Rightarrow> 'w entries" | SameObject

record 'w ext_sim = "'w sim" +
  original_data_config :: "'w snapshot"

definition init_ext_sim :: "'w \<Rightarrow> 'w ext_sim" where
  "init_ext_sim w = \<lparr>data_config = (\<lambda>sp. []), bit_config = (\<lambda>sp. []), world = w,
                     original_data_config = NoSnapshot\<rparr>"

text \<open>\<^verbatim>\<open>save_original_config\<close>.\<close>

definition save_original_config :: "'w ext_sim \<Rightarrow> 'w ext_sim" where
  "save_original_config s = s\<lparr>original_data_config := Snapshot (data_config s)\<rparr>"

text \<open>
  The loops of the \<^verbatim>\<open>else\<close> branch of \<^verbatim>\<open>reset_data\<close>: every entry of every space gets
  the time stamp and a newly generated value.
\<close>

fun reseed_entries ::
  "'w generator \<Rightarrow> real \<Rightarrow> 'w entries \<Rightarrow> 'w \<Rightarrow> exn option \<times> 'w entries \<times> 'w" where
  "reseed_entries gen current_time [] w = (None, [], w)"
| "reseed_entries gen current_time ((address, config) # rest) w =
     (case regenerate gen current_time config w of
        (Some e, config', w') \<Rightarrow> (Some e, (address, config') # rest, w')
      | (None, config', w') \<Rightarrow>
          (case reseed_entries gen current_time rest w' of
             (r, rest', w'') \<Rightarrow> (r, (address, config') # rest', w'')))"

fun reseed_spaces ::
  "'w generator \<Rightarrow> real \<Rightarrow> space list \<Rightarrow> ('w, 'z) sim_scheme \<Rightarrow>
   exn option \<times> ('w, 'z) sim_scheme" where
  "reseed_spaces gen current_time [] s = (None, s)"
| "reseed_spaces gen current_time (sp # sps) s =
     (case reseed_entries gen current_time (data_config s sp) (world s) of
        (r, dc', w') \<Rightarrow>
          let s1 = s\<lparr>data_config := (data_config s)(sp := dc'), world := w'\<rparr> in
          case r of
            Some e \<Rightarrow> (Some e, s1)
          | None \<Rightarrow> reseed_spaces gen current_time sps s1)"

text \<open>
  \<^verbatim>\<open>reset_data\<close>: with a snapshot, \<^verbatim>\<open>self.data_config = self.original_data_config\<close>,
  after which both names refer to one object; without one, the entries are reseeded.
\<close>

definition reset_data ::
  "'w generator \<Rightarrow> real \<Rightarrow> 'w ext_sim \<Rightarrow> exn option \<times> 'w ext_sim" where
  "reset_data gen current_time s =
     (case original_data_config s of
        Snapshot d \<Rightarrow> (None, s\<lparr>data_config := d, original_data_config := SameObject\<rparr>)
      | SameObject \<Rightarrow> (None, s)
      | NoSnapshot \<Rightarrow>
          reseed_spaces gen current_time
            [Coils, DiscreteInputs, HoldingRegisters, InputRegisters] s)"

text \<open>The state that \<^verbatim>\<open>__init__\<close> builds: no entry, no overlay.\<close>

definition init_sim :: "'w \<Rightarrow> 'w sim" where
  "init_sim w = \<lparr>data_config = (\<lambda>sp. []), bit_config = (\<lambda>sp. []), world = w\<rparr>"

section \<open>Notions used to state the properties\<close>

text \<open>
  The call of the producer as the \<^verbatim>\<open>generate_data\<close> of the given class performs it.
\<close>

definition producer_call ::
  "sim_class \<Rightarrow> 'w producer \<Rightarrow> 'w config \<Rightarrow> 'w \<Rightarrow> (exn + pyval) \<times> 'w" where
  "producer_call c f config w =
     (case c of
        ModbusTCPSimulator \<Rightarrow> call_producer f (data_range config) w
      | ExtendedModbusTCPSimulator \<Rightarrow> call_producer_ext f config w)"

text \<open>
  A value has the declared type \<open>dt\<close> when it is what a successful conversion to \<open>dt\<close>
  yields: an integer in the 16-bit or 32-bit unsigned range, any integer for \<^verbatim>\<open>int32\<close>
  (the conversion does not mask it), a float, a boolean or a string.
\<close>

definition has_declared_type :: "string \<Rightarrow> pyval \<Rightarrow> bool" where
  "has_declared_type dt v =
     (if dt = ''int32'' then (case v of PInt i \<Rightarrow> True | _ \<Rightarrow> False)
      else if dt = ''uint32'' then (case v of PInt i \<Rightarrow> 0 \<le> i \<and> i \<le> 0xFFFFFFFF | _ \<Rightarrow> False)
      else if dt = ''float32'' \<or> dt = ''float64'' then (case v of PFloat f \<Rightarrow> True | _ \<Rightarrow> False)
      else if dt = ''bool'' then (case v of PBool b \<Rightarrow> True | _ \<Rightarrow> False)
      else if dt = ''string'' then (case v of PStr s \<Rightarrow> True | _ \<Rightarrow> False)
      else (case v of PInt i \<Rightarrow> 0 \<le> i \<and> i \<le> 0xFFFF | _ \<Rightarrow> False))"

subsection \<open>Producers for concrete scenarios\<close>

text \<open>A callable without parameters that always raises.\<close>

definition failing_producer :: "'w producer" where
  "failing_producer =
     \<lparr>param_count = Some 0, closure_int_cell = (\<lambda>w. False), fn_repr = [],
      invoke = (\<lambda>args w. (Inl OtherError, w))\<rparr>"

text \<open>
  The closure \<^verbatim>\<open>ramp_func\<close> that \<^verbatim>\<open>create_ramp_function(start, step, max_value)\<close> of the
  configuration tool returns, for integer parameters and an integer data type. Its closure
  owns the cell \<^verbatim>\<open>current = [start]\<close>; here the outside state is the content of that
  cell. Each call stores \<^verbatim>\<open>(current[0] + step) % max_value\<close> and returns it; a zero
  \<open>max_value\<close> raises \<^verbatim>\<open>ZeroDivisionError\<close>, a call with arguments \<^verbatim>\<open>TypeError\<close>.
\<close>

definition ramp_func :: "int \<Rightarrow> int \<Rightarrow> int producer" where
  "ramp_func step max_value =
     \<lparr>param_count = Some 0, closure_int_cell = (\<lambda>w. True), fn_repr = [],
      invoke = (\<lambda>args current.
                  case args of
                    [] \<Rightarrow> if max_value = 0 then (Inl OtherError, current)
                          else (Inr (PInt ((current + step) mod max_value)),
                                (current + step) mod max_value)
                  | _ \<Rightarrow> (Inl TypeError, current))\<rparr>"




text \<open>
  The calls that reach a simulator object between its creation and its shutdown: the
  two ingest operations, a read request, and the assignment of new empty dictionaries to
  \<^verbatim>\<open>data_config\<close> and \<^verbatim>\<open>bit_config\<close> with which \<^verbatim>\<open>apply_config_to_simulator\<close> begins
  (after it, a snapshot that was the same object as \<^verbatim>\<open>data_config\<close> is the old object).
  \<open>run_calls\<close> performs a sequence of them and keeps the state that each leaves behind.
\<close>

datatype 'w call =
    SetData string int "'w valspec" real "pyval list option" string real
  | SetBits string int "(int \<times> 'w bit_item) list" "int \<Rightarrow> real"
  | Read int int nat real
  | ClearConfig

fun run_call :: "'w generator \<Rightarrow> pyrt \<Rightarrow> 'w call \<Rightarrow> 'w ext_sim \<Rightarrow> 'w ext_sim" where
  "run_call gen rt (SetData address_type address v ival drange dtype t) s =
     snd (set_data_config gen address_type address v ival drange dtype t s)"
| "run_call gen rt (SetBits address_type address bit_configs clock) s =
     snd (set_bit_config gen address_type address bit_configs clock s)"
| "run_call gen rt (Read fc start_address quantity t) s =
     snd (handle_read_request gen rt fc start_address quantity t s)"
| "run_call gen rt ClearConfig s =
     s\<lparr>data_config := (\<lambda>sp. []), bit_config := (\<lambda>sp. []),
       original_data_config :=
         (case original_data_config s of
            SameObject \<Rightarrow> Snapshot (data_config s)
          | snapshot \<Rightarrow> snapshot)\<rparr>"

definition run_calls ::
  "'w generator \<Rightarrow> pyrt \<Rightarrow> 'w call list \<Rightarrow> 'w ext_sim \<Rightarrow> 'w ext_sim" where
  "run_calls gen rt calls s = foldl (\<lambda>s c. run_call gen rt c s) s calls"

text \<open>
  \<^verbatim>\<open>start_server\<close> of the configuration tool, as far as the simulator object is
  concerned: the object is created, \<^verbatim>\<open>save_original_config\<close> is called on it, and then
  \<^verbatim>\<open>apply_config_to_simulator\<close> assigns the new empty dictionaries and makes its ingest
  calls, one \<^verbatim>\<open>set_data_config\<close> and possibly one \<^verbatim>\<open>set_bit_config\<close> for each entry of
  the tool's configuration; \<open>installs\<close> is the list of these calls.
  \<^verbatim>\<open>stop_server\<close> calls \<^verbatim>\<open>stop\<close>, which touches the socket and the running flag only,
  and then \<^verbatim>\<open>reset_data\<close>.
\<close>

definition start_server ::
  "'w generator \<Rightarrow> pyrt \<Rightarrow> 'w call list \<Rightarrow> 'w \<Rightarrow> 'w ext_sim" where
  "start_server gen rt installs w =
     run_calls gen rt (ClearConfig # installs) (save_original_config (init_ext_sim w))"

definition stop_server ::
  "'w generator \<Rightarrow> real \<Rightarrow> 'w ext_sim \<Rightarrow> exn option \<times> 'w ext_sim" where
  "stop_server gen current_time s = reset_data gen current_time s"

text \<open>
  An entry whose value generation cannot raise: its value is a callable, or a fixed value
  whose conversion to the declared type does not raise \<^verbatim>\<open>OverflowError\<close>.
\<close>

definition fixed_ok :: "pyrt \<Rightarrow> 'w config \<Rightarrow> bool" where
  "fixed_ok rt config =
     (case cfg_value config of
        Fixed v \<Rightarrow> convert_raw rt v (data_type config) \<noteq> Inl OverflowError
      | Callable f \<Rightarrow> True)"

text \<open>
  The string \<^verbatim>\<open>'Hello'\<close>, and the simulator after
  \<^verbatim>\<open>set_data_config('holding_registers', 4, 'Hello', 10, None, 'string')\<close> at time 0: the
  entry occupies the holding registers 4 to 8.
\<close>

definition hello :: pystr where
  "hello = [72, 101, 108, 108, 111]"

definition hello_sim :: "unit sim" where
  "hello_sim = snd (set_data_config (generate_data plain_rt) ''holding_registers'' 4
                     (Fixed (PStr hello)) 10 None ''string'' 0 (init_sim ()))"








subsection \<open>Notions for the freshness of reads\<close>



text \<open>
  Whether \<^verbatim>\<open>generate_data\<close> reaches the call of the entry's producer: it does not for a
  fixed value, for a callable whose signature cannot be inspected, and for a callable with
  two parameters when the configured range has a single element (\<^verbatim>\<open>data_range[1]\<close>
  raises before the call). On every other path of either class the producer is called
  once.
\<close>

definition producer_called :: "'w config \<Rightarrow> bool" where
  "producer_called config =
     (case cfg_value config of
        Fixed v \<Rightarrow> False
      | Callable f \<Rightarrow>
          (case param_count f of
             None \<Rightarrow> False
           | Some n \<Rightarrow>
               \<not> (n = 2 \<and> (case data_range config of Some [lo] \<Rightarrow> True | _ \<Rightarrow> False))))"

text \<open>
  Counting calls: \<open>cnt\<close> reads a counter off the outside state. The entry's producer
  bumps the counter when each of its calls adds one to it; an entry is quiet when the calls
  of its producer leave the counter as it is. In \<open>others_quiet\<close> every entry of the space
  other than the one at address \<open>a\<close>, and every bit of every overlay of the space, is
  quiet, so that the counter counts the calls made for the entry at \<open>a\<close>.
\<close>

definition bumps :: "('w \<Rightarrow> nat) \<Rightarrow> 'w config \<Rightarrow> bool" where
  "bumps cnt config =
     (case cfg_value config of
        Fixed v \<Rightarrow> True
      | Callable f \<Rightarrow> \<forall>args w. cnt (snd (invoke f args w)) = cnt w + 1)"

definition quiet :: "('w \<Rightarrow> nat) \<Rightarrow> 'w config \<Rightarrow> bool" where
  "quiet cnt config =
     (case cfg_value config of
        Fixed v \<Rightarrow> True
      | Callable f \<Rightarrow> \<forall>args w. cnt (snd (invoke f args w)) = cnt w)"




text \<open>
  A producer that accepts any arguments (a single variadic parameter, which
  \<^verbatim>\<open>inspect.signature\<close> counts as one parameter), counts its calls in a list cell of its
  closure and returns the count; the outside state is that count. An entry driven by it,
  with the update interval 1, last refreshed at time 0 with the value 0.
\<close>

definition call_counter :: "nat producer" where
  "call_counter =
     \<lparr>param_count = Some 1, closure_int_cell = (\<lambda>w. False), fn_repr = [],
      invoke = (\<lambda>args n. (Inr (PInt (int n + 1)), n + 1))\<rparr>"

definition counter_entry :: "nat config" where
  "counter_entry =
     \<lparr>cfg_value = Callable call_counter, interval = 1, last_update = 0, data_range = None,
      data_type = ''int16'', current_value = Some (PInt 0), description = None,
      is_bit_config = False\<rparr>"


definition counter_overlay_store :: "real \<Rightarrow> nat sim" where
  "counter_overlay_store ival =
     \<lparr>data_config = (\<lambda>sp. [])(HoldingRegisters := [(10, counter_entry\<lparr>interval := ival\<rparr>)]),
      bit_config = (\<lambda>sp. [])(HoldingRegisters :=
        [(10, [(0, \<lparr>cfg_value = Fixed (PBool True), interval = 1, last_update = 0,
                     data_range = None, data_type = ''bool'', current_value = Some (PBool True),
                     description = None, is_bit_config = True\<rparr>)])]),
      world = 0\<rparr>"

section \<open>Verified properties\<close>

subsection \<open>Codec: parsing\<close>

lemma unpack_H_bounds: "0 \<le> unpack_H hi lo \<and> unpack_H hi lo < 65536"
proof -
  have "uint hi < 256" "uint lo < 256"
    using uint_bounded [of hi] uint_bounded [of lo] by simp_all
  then show ?thesis unfolding unpack_H_def by simp
qed

text \<open>
  Claim C7, as amended. Parsing fails exactly when the buffer is shorter than 8 bytes; the
  length field is not validated. For a buffer of at least 8 bytes parsing returns the
  transaction identifier (bytes 0 and 1), the unit identifier (byte 6), the function code
  (byte 7) and as payload the bytes from position 8 on, at most (length field - 2) of
  them; when the length field is consistent with the buffer, the payload has exactly
  (length field - 2) bytes.
\<close>

theorem parse_modbus_request_contract:
  "(parse_modbus_request data = None \<longleftrightarrow> length data < 8) \<and>
   (8 \<le> length data \<longrightarrow>
      (\<exists>r. parse_modbus_request data = Some r \<and>
           transaction_id r = unpack_H (data ! 0) (data ! 1) \<and>
           unit_id r = uint (data ! 6) \<and>
           function_code r = uint (data ! 7) \<and>
           req_data r = take (nat (length_field data - 2)) (drop 8 data) \<and>
           (length_consistent data \<longrightarrow> int (length (req_data r)) = length_field data - 2)))"
proof -
  have "nat (8 + unpack_H (data ! 4) (data ! 5) - 2) - 8 = nat (unpack_H (data ! 4) (data ! 5) - 2)"
    using unpack_H_bounds [of "data ! 4" "data ! 5"] by arith
  then show ?thesis
    by (auto simp: parse_modbus_request_def Let_def py_slice_def length_field_def
        length_consistent_def)
qed

text \<open>The request of scenario S1 parses, with a consistent length field.\<close>

theorem parse_modbus_request_contract_witness:
  "parse_modbus_request [0,1,0,0,0,6,1,3,0,0,0,1] \<noteq> None \<and>
   (\<exists>r. parse_modbus_request [0,1,0,0,0,6,1,3,0,0,0,1] = Some r \<and>
        transaction_id r = 1 \<and> unit_id r = 1 \<and> function_code r = 3 \<and>
        req_data r = [0,0,0,1] \<and> length_consistent [0,1,0,0,0,6,1,3,0,0,0,1])"
  using parse_modbus_request_contract [of "[0,1,0,0,0,6,1,3,0,0,0,1]"]
  by (auto simp add: length_field_def length_consistent_def unpack_H_def)

text \<open>
  Claim C7 as stated fails: a buffer of 8 bytes whose length field says 6 (only 2 bytes
  follow the field) is inconsistent, and yet it parses.
\<close>

theorem parse_inconsistent_length_counterexample:
  "\<not> (parse_modbus_request [0,1,0,0,0,6,1,3] = None \<longleftrightarrow>
        (length [0,1,0,0,0,6,1,3 :: byte] < 8 \<or> \<not> length_consistent [0,1,0,0,0,6,1,3]))"
  by (simp add: parse_modbus_request_def length_consistent_def length_field_def unpack_H_def)

subsection \<open>Codec: frame round trip\<close>

lemma ebind_Inr_iff: "ebind m f = Inr y \<longleftrightarrow> (\<exists>x. m = Inr x \<and> f x = Inr y)"
  by (cases m) (simp_all add: ebind_def)

lemma pack_B_Inr: "pack_B v = Inr bs \<Longrightarrow> length bs = 1"
  by (auto simp: pack_B_def split: if_splits)

lemma pack_H_Inr: "pack_H v = Inr bs \<Longrightarrow> length bs = 2"
  by (auto simp: pack_H_def split: if_splits)

lemma econcat_length:
  "econcat ps = Inr bs \<Longrightarrow> \<forall>p \<in> set ps. \<forall>x. p = Inr x \<longrightarrow> length x = k \<Longrightarrow>
   length bs = k * length ps"
proof (induction ps arbitrary: bs)
  case Nil
  then show ?case by simp
next
  case (Cons p ps)
  then show ?case by (auto simp: ebind_Inr_iff)
qed

lemma uint_word_of_int_byte: "0 \<le> v \<Longrightarrow> v \<le> 255 \<Longrightarrow> uint (word_of_int v :: byte) = v"
  by (simp add: uint_word_of_int take_bit_int_eq_self)

lemma unpack_H_pack:
  assumes "0 \<le> v" "v \<le> 65535"
  shows "unpack_H (word_of_int (v div 256)) (word_of_int (v mod 256)) = v"
proof -
  have "0 \<le> v div 256" "v div 256 \<le> 255" using assms by auto
  moreover have "0 \<le> v mod 256" "v mod 256 \<le> 255" by auto
  ultimately show ?thesis
    by (simp add: unpack_H_def uint_word_of_int_byte)
qed

text \<open>
  The body of a normal response keeps the function code and has between 1 and 256 bytes:
  the byte count must fit one byte.
\<close>

lemma response_body_length:
  assumes "response_body rt fc data = Inr (fc', body)" "fc = 1 \<or> fc = 2 \<or> fc = 3 \<or> fc = 4"
  shows "fc' = fc \<and> 1 \<le> length body \<and> length body \<le> 256"
proof (cases "fc = 1 \<or> fc = 2")
  case True
  let ?n = "(length data + 7) div 8"
  from assms(1) True obtain hd tl where
    hd: "pack_B (int ?n) = Inr hd"
    and tl: "econcat (map (\<lambda>i. pack_B (pack_bits_byte data i)) [0..<?n]) = Inr tl"
    and body: "body = hd @ tl" and fc: "fc' = fc"
    by (auto simp: response_body_def Let_def ebind_Inr_iff)
  have "length tl = 1 * length (map (\<lambda>i. pack_B (pack_bits_byte data i)) [0..<?n])"
    by (rule econcat_length [OF tl]) (auto dest: pack_B_Inr)
  moreover have "?n \<le> 255" using hd by (auto simp: pack_B_def split: if_splits)
  ultimately show ?thesis using pack_B_Inr [OF hd] body fc by simp
next
  case False
  with assms(2) have fc34: "fc = 3 \<or> fc = 4" by simp
  from assms(1) False fc34 obtain regs hd tl where
    hd: "pack_B (int (length regs * 2)) = Inr hd"
    and tl: "econcat (map pack_H regs) = Inr tl"
    and body: "body = hd @ tl" and fc: "fc' = fc"
    by (auto simp: response_body_def Let_def ebind_Inr_iff)
  have "length tl = 2 * length (map pack_H regs)"
    by (rule econcat_length [OF tl]) (auto dest: pack_H_Inr)
  moreover have "length regs * 2 \<le> 255" using hd by (auto simp: pack_B_def split: if_splits)
  ultimately show ?thesis using pack_B_Inr [OF hd] body fc by simp
qed

text \<open>
  Claim C4. For a 16-bit transaction identifier, an 8-bit unit identifier, a supported
  read function code and the body bytes that the encoder builds for it, the encoded normal
  response parses back to the same transaction identifier, unit identifier and function
  code with the body as payload, and its MBAP length field is 1 + 1 + len(body).
\<close>

theorem frame_round_trip:
  assumes "0 \<le> tid" "tid \<le> 65535" "0 \<le> uid" "uid \<le> 255"
    and "fc = 1 \<or> fc = 2 \<or> fc = 3 \<or> fc = 4"
    and "response_body rt fc data = Inr (fc', body)"
  shows "\<exists>frame. create_modbus_response rt tid uid fc data = Inr frame \<and>
           parse_modbus_request frame =
             Some \<lparr>transaction_id = tid, unit_id = uid, function_code = fc, req_data = body\<rparr> \<and>
           length_field frame = 1 + 1 + int (length body)"
proof -
  from response_body_length [OF assms(6,5)]
  have fc': "fc' = fc" and len: "length body \<le> 256" by simp_all
  have fcr: "0 \<le> fc" "fc \<le> 255" using assms(5) by auto
  have L: "0 \<le> 2 + int (length body)" "2 + int (length body) \<le> 65535" using len by auto
  show ?thesis
    using assms(1-4) fcr L unpack_H_pack [OF assms(1,2)] unpack_H_pack [OF L]
    by (simp add: create_modbus_response_def assms(6) fc' pack_H_def pack_B_def ebind_def
        parse_modbus_request_def length_field_def py_slice_def uint_word_of_int_byte Let_def)
qed

text \<open>Scenario S1: the response to a read of one holding register holding 1000.\<close>

theorem frame_round_trip_witness:
  "response_body plain_rt 3 [PInt 1000] = Inr (3, [2, 3, 232]) \<and>
   create_modbus_response plain_rt 1 1 3 [PInt 1000] = Inr [0,1,0,0,0,5,1,3,2,3,232] \<and>
   parse_modbus_request [0,1,0,0,0,5,1,3,2,3,232] =
     Some \<lparr>transaction_id = 1, unit_id = 1, function_code = 3, req_data = [2, 3, 232]\<rparr> \<and>
   length_field [0,1,0,0,0,5,1,3,2,3,232] = 5"
proof -
  have body: "response_body plain_rt 3 [PInt 1000] = Inr (3, [2, 3, 232])"
    by (simp add: response_body_def ebind_def pack_B_def pack_H_def)
  have enc: "create_modbus_response plain_rt 1 1 3 [PInt 1000] = Inr [0,1,0,0,0,5,1,3,2,3,232]"
    by (simp add: create_modbus_response_def body ebind_def pack_B_def pack_H_def)
  from frame_round_trip [of 1 1 3 plain_rt "[PInt 1000]" 3 "[2, 3, 232]"] body enc
  show ?thesis by simp
qed

subsection \<open>Generators\<close>

lemma trunc_nonneg: "0 \<le> r \<Longrightarrow> trunc r = \<lfloor>r\<rfloor>"
  by (simp add: trunc_def)

text \<open>
  Claim C8, as amended. For every period p > 0 and every time now (seconds since the
  epoch, not negative), the periodic_bool generator outputs 1 if floor(now) mod p <
  floor(p / 2) and 0 otherwise: the half period is Python's \<^verbatim>\<open>period // 2\<close>. When p is
  an even integer this is the exact half, and the output is as the claim says.
\<close>

theorem periodic_boolean_func_floor_half:
  assumes "0 < p" "0 \<le> now"
  shows "periodic_boolean_func p now =
           Inr (if py_mod (of_int \<lfloor>now\<rfloor>) p < of_int \<lfloor>p / 2\<rfloor> then 1 else 0) \<and>
         (\<forall>k. p = 2 * of_int k \<longrightarrow>
            periodic_boolean_func p now =
              Inr (if py_mod (of_int \<lfloor>now\<rfloor>) p < p / 2 then 1 else 0))"
  using assms by (auto simp: periodic_boolean_func_def py_floordiv_def trunc_nonneg)

text \<open>With period 10, the output is 1 at second 3 and 0 at second 7.\<close>

theorem periodic_boolean_func_floor_half_witness:
  "(0::real) < 10 \<and> (0::real) \<le> 3 \<and> (0::real) \<le> 7 \<and>
   periodic_boolean_func 10 3 = Inr 1 \<and> periodic_boolean_func 10 7 = Inr 0"
  using periodic_boolean_func_floor_half [of 10 3] periodic_boolean_func_floor_half [of 10 7]
  by (simp add: py_mod_def)

text \<open>
  Claim C8 as stated fails for an odd period: with p = 3 at second 1, the remainder 1 is
  below the exact half 3/2, and the generator outputs 0.
\<close>

theorem periodic_boolean_func_exact_half_counterexample:
  "py_mod (of_int \<lfloor>1 :: real\<rfloor>) 3 < 3 / 2 \<and> periodic_boolean_func 3 1 = Inr 0"
  by (simp add: periodic_boolean_func_def py_mod_def py_floordiv_def trunc_def)

subsection \<open>Configuration ingest\<close>

lemma install_bits_invalid:
  "\<exists>(b, item) \<in> set items. b < 0 \<or> b > 15 \<Longrightarrow>
   fst (install_bits gen clock items ov w) \<noteq> None"
proof (induction items arbitrary: ov w)
  case Nil
  then show ?case by simp
next
  case (Cons a items)
  obtain b item where a: "a = (b, item)" by (cases a)
  show ?case
  proof (cases "b < 0 \<or> b > 15")
    case True
    then show ?thesis by (simp add: a)
  next
    case False
    with Cons.prems a have "\<exists>(b, item) \<in> set items. b < 0 \<or> b > 15" by auto
    from Cons.IH [OF this] False show ?thesis
      by (auto simp: a split: prod.splits option.splits)
  qed
qed

lemma map_of_update_same: "map_of (AList.update k v al) k = Some v"
  by (simp add: update_conv')

text \<open>
  Claim C9, as amended. A configuration-ingest call with an invalid space name is
  rejected with ValueError and leaves the simulator's state unchanged, and so is a bit
  overlay for a space that has no bit overlays; a bit-overlay call with a bit index
  outside 0..15 raises an error. The update interval and the data range (the random list)
  are not validated at ingest: for a valid space name the entry is installed with the
  interval and the range given, whatever they are.
\<close>

theorem config_ingest_validation:
  "(space_of_name address_type = None \<longrightarrow>
      set_data_config gen address_type address v ival drange dtype now s = (Some ValueError, s) \<and>
      set_bit_config gen address_type address bit_configs clock s = (Some ValueError, s)) \<and>
   (\<forall>sp. space_of_name address_type = Some sp \<and> \<not> has_bit_config sp \<longrightarrow>
      set_bit_config gen address_type address bit_configs clock s = (Some ValueError, s)) \<and>
   (\<forall>sp. space_of_name address_type = Some sp \<and> has_bit_config sp \<and>
         (\<exists>(b, item) \<in> set bit_configs. b < 0 \<or> b > 15) \<longrightarrow>
      fst (set_bit_config gen address_type address bit_configs clock s) \<noteq> None) \<and>
   (\<forall>sp. space_of_name address_type = Some sp \<longrightarrow>
      (\<exists>config. map_of (data_config (snd (set_data_config gen address_type address v ival
                           drange dtype now s)) sp) address = Some config \<and>
                interval config = ival \<and> data_range config = drange))"
proof (intro conjI allI impI)
  fix sp
  assume "space_of_name address_type = Some sp \<and> has_bit_config sp \<and>
         (\<exists>(b, item) \<in> set bit_configs. b < 0 \<or> b > 15)"
  then show "fst (set_bit_config gen address_type address bit_configs clock s) \<noteq> None"
    using install_bits_invalid [of bit_configs gen clock
        "case map_of (bit_config s sp) address of None \<Rightarrow> [] | Some b \<Rightarrow> b" "world s"]
    by (auto simp: set_bit_config_def Let_def split: prod.splits)
next
  fix sp
  assume "space_of_name address_type = Some sp"
  then show "\<exists>config. map_of (data_config (snd (set_data_config gen address_type address v ival
                           drange dtype now s)) sp) address = Some config \<and>
                interval config = ival \<and> data_range config = drange"
    by (auto simp: set_data_config_def Let_def regenerate_def map_of_update_same
        split: prod.splits sum.splits)
qed (auto simp: set_data_config_def set_bit_config_def)

text \<open>
  An unknown space name, a bit overlay on the coils, a bit index 16 on the holding
  registers, and an entry with a negative interval and an empty random list.
\<close>

theorem config_ingest_validation_witness:
  "set_data_config (generate_data plain_rt) ''registers'' 0 (Fixed (PInt 5)) 1 None ''int16'' 100
     (init_sim ()) = (Some ValueError, init_sim ()) \<and>
   set_bit_config (generate_data plain_rt) ''coils'' 0
     [(0, \<lparr>item_value = None, item_interval = None, item_data_range = None,
            item_description = None\<rparr>)] (\<lambda>b. 100) (init_sim ()) = (Some ValueError, init_sim ()) \<and>
   fst (set_bit_config (generate_data plain_rt) ''holding_registers'' 0
     [(16, \<lparr>item_value = None, item_interval = None, item_data_range = None,
             item_description = None\<rparr>)] (\<lambda>b. 100) (init_sim ())) \<noteq> None \<and>
   (\<exists>config. map_of (data_config (snd (set_data_config (generate_data plain_rt)
                 ''holding_registers'' 0 (Fixed (PInt 5)) (- 1) (Some []) ''int16'' 100
                 (init_sim ()))) HoldingRegisters) 0 = Some config \<and>
             interval config = - 1 \<and> data_range config = Some [])"
  using
    config_ingest_validation [where address_type = "''registers''"
      and gen = "generate_data plain_rt" and address = 0 and v = "Fixed (PInt 5)" and ival = 1
      and drange = None and dtype = "''int16''" and now = 100 and s = "init_sim ()"]
    config_ingest_validation [where address_type = "''coils''"
      and gen = "generate_data plain_rt" and address = 0 and clock = "\<lambda>b. 100"
      and s = "init_sim ()"
      and bit_configs = "[(0, \<lparr>item_value = None, item_interval = None,
                              item_data_range = None, item_description = None\<rparr>)]"]
    config_ingest_validation [where address_type = "''holding_registers''"
      and gen = "generate_data plain_rt" and address = 0 and clock = "\<lambda>b. 100"
      and s = "init_sim ()" and v = "Fixed (PInt 5)" and ival = "- 1"
      and drange = "Some []" and dtype = "''int16''" and now = 100
      and bit_configs = "[(16, \<lparr>item_value = None, item_interval = None,
                               item_data_range = None, item_description = None\<rparr>)]"]
  by (simp add: space_of_name_def has_bit_config_def)

text \<open>
  Claim C9 as stated fails: an entry with the update interval 0 is accepted without an
  error, and the state changes.
\<close>

theorem nonpositive_interval_counterexample:
  "fst (set_data_config (generate_data plain_rt) ''holding_registers'' 0 (Fixed (PInt 5)) 0 None
          ''int16'' 100 (init_sim ())) = None \<and>
   data_config (snd (set_data_config (generate_data plain_rt) ''holding_registers'' 0
          (Fixed (PInt 5)) 0 None ''int16'' 100 (init_sim ()))) HoldingRegisters
     \<noteq> data_config (init_sim ()) HoldingRegisters"
  by (simp add: set_data_config_def space_of_name_def regenerate_def generate_data_def
      generate_value_def convert_to_data_type_def convert_raw_def ebind_def init_sim_def)

subsection \<open>Value generation\<close>

lemma convert_zero_total: "\<exists>v. convert_to_data_type rt (PInt 0) dt = Inr v"
  by (simp add: convert_to_data_type_def convert_raw_def ebind_def)

lemma convert_ValueError:
  "convert_raw rt x dt = Inl ValueError \<Longrightarrow> convert_to_data_type rt x dt = Inr (PInt 0)"
  by (simp add: convert_to_data_type_def)

lemma convert_TypeError:
  "convert_raw rt x dt = Inl TypeError \<Longrightarrow> convert_to_data_type rt x dt = Inr (PInt 0)"
  by (simp add: convert_to_data_type_def)

lemma py_int_exn:
  "py_int rt x = Inl e \<Longrightarrow> e = ValueError \<or> e = TypeError \<or> e = OverflowError"
  by (cases "(rt, x)" rule: py_int.cases) (auto split: option.splits)

lemma py_float_exn:
  "py_float rt x = Inl e \<Longrightarrow> e = ValueError \<or> e = TypeError \<or> e = OverflowError"
  by (cases "(rt, x)" rule: py_float.cases) (auto split: option.splits if_splits)

lemma convert_raw_exn:
  "convert_raw rt x dt = Inl e \<Longrightarrow> e = ValueError \<or> e = TypeError \<or> e = OverflowError"
  unfolding convert_raw_def ebind_def
  by (auto split: if_splits sum.splits dest: py_int_exn py_float_exn)

lemma and_mask_bounds: "0 \<le> (m::int) \<Longrightarrow> 0 \<le> i AND m \<and> i AND m \<le> m"
  by (simp add: AND_upper2')

lemma convert_raw_typed: "convert_raw rt x dt = Inr v \<Longrightarrow> has_declared_type dt v"
  unfolding convert_raw_def has_declared_type_def
  by (auto simp: ebind_Inr_iff and_mask_bounds split: if_splits)

lemma convert_typed:
  "convert_to_data_type rt x dt = Inr v \<Longrightarrow> has_declared_type dt v \<or> v = PInt 0"
  unfolding convert_to_data_type_def
  by (auto split: sum.splits exn.splits dest: convert_raw_typed)

lemma generate_data_of_typed:
  "generate_data_of c rt config now w = (Inr v, w') \<Longrightarrow>
   has_declared_type (data_type config) v \<or> v = PInt 0"
  by (cases c)
    (auto simp: generate_data_def generate_value_def generate_data_ext_def
      split: valspec.splits prod.splits sum.splits dest: convert_typed)

text \<open>
  Claim C10, as amended. For every configuration entry whose value is a producer callable
  (bit entries included), for either class of simulator and every time, generate_data
  returns a value without propagating an exception: if the producer raises, the result is
  the declared-type conversion of 0, and if the conversion of the produced value fails with
  ValueError or TypeError, the result is the integer 0; so a producer fault alone never
  surfaces as an exception. For an entry with a fixed value, generate_data returns the
  conversion of that value, the integer 0 when the conversion raises ValueError or
  TypeError, and a value in every case but an OverflowError of the conversion. Every value
  returned has the declared type or is the integer 0.
\<close>

theorem generate_data_total:
  "(\<forall>f. cfg_value config = Callable f \<longrightarrow>
      (\<exists>v. fst (generate_data_of c rt config now w) = Inr v \<and>
           (\<forall>e. fst (producer_call c f config w) = Inl e \<longrightarrow>
                 convert_to_data_type rt (PInt 0) (data_type config) = Inr v) \<and>
           (\<forall>x. fst (producer_call c f config w) = Inr x \<and>
                (convert_raw rt x (data_type config) = Inl ValueError \<or>
                 convert_raw rt x (data_type config) = Inl TypeError) \<longrightarrow> v = PInt 0))) \<and>
   (\<forall>x. cfg_value config = Fixed x \<longrightarrow>
      generate_data_of c rt config now w = (convert_to_data_type rt x (data_type config), w) \<and>
      (convert_raw rt x (data_type config) = Inl ValueError \<or>
       convert_raw rt x (data_type config) = Inl TypeError \<longrightarrow>
         generate_data_of c rt config now w = (Inr (PInt 0), w)) \<and>
      (convert_raw rt x (data_type config) \<noteq> Inl OverflowError \<longrightarrow>
         (\<exists>v. generate_data_of c rt config now w = (Inr v, w)))) \<and>
   (\<forall>v w'. generate_data_of c rt config now w = (Inr v, w') \<longrightarrow>
      has_declared_type (data_type config) v \<or> v = PInt 0)"
proof (intro conjI allI impI)
  fix f assume f: "cfg_value config = Callable f"
  obtain z where z: "convert_to_data_type rt (PInt 0) (data_type config) = Inr z"
    using convert_zero_total by blast
  show "\<exists>v. fst (generate_data_of c rt config now w) = Inr v \<and>
           (\<forall>e. fst (producer_call c f config w) = Inl e \<longrightarrow>
                 convert_to_data_type rt (PInt 0) (data_type config) = Inr v) \<and>
           (\<forall>x. fst (producer_call c f config w) = Inr x \<and>
                (convert_raw rt x (data_type config) = Inl ValueError \<or>
                 convert_raw rt x (data_type config) = Inl TypeError) \<longrightarrow> v = PInt 0)"
    using f z
    by (cases c)
      (auto simp: generate_data_def generate_value_def generate_data_ext_def producer_call_def
        convert_ValueError convert_TypeError split: prod.splits sum.splits)
next
  fix x assume x: "cfg_value config = Fixed x"
  show *: "generate_data_of c rt config now w = (convert_to_data_type rt x (data_type config), w)"
    using x by (cases c) (simp_all add: generate_data_def generate_value_def generate_data_ext_def)
  show "generate_data_of c rt config now w = (Inr (PInt 0), w)"
    if "convert_raw rt x (data_type config) = Inl ValueError \<or>
        convert_raw rt x (data_type config) = Inl TypeError"
    using that * convert_ValueError convert_TypeError by metis
  show "\<exists>v. generate_data_of c rt config now w = (Inr v, w)"
    if "convert_raw rt x (data_type config) \<noteq> Inl OverflowError"
    using that convert_raw_exn [of rt x "data_type config"] *
    by (auto simp: convert_to_data_type_def split: sum.splits exn.splits)
next
  fix v w' assume "generate_data_of c rt config now w = (Inr v, w')"
  then show "has_declared_type (data_type config) v \<or> v = PInt 0"
    by (rule generate_data_of_typed)
qed

text \<open>
  A float32 entry whose producer always raises yields the float 0.0; a fixed string that
  is no number yields the integer 0 for the type int16.
\<close>

theorem generate_data_total_witness:
  "fst (generate_data_of ExtendedModbusTCPSimulator plain_rt
     \<lparr>cfg_value = Callable failing_producer, interval = 1, last_update = 0, data_range = None,
      data_type = ''float32'', current_value = None, description = None,
      is_bit_config = False\<rparr> 0 ()) = Inr (PFloat (Finite 0)) \<and>
   generate_data_of ModbusTCPSimulator plain_rt
     \<lparr>cfg_value = Fixed (PStr [97]), interval = 1, last_update = 0, data_range = None,
      data_type = ''int16'', current_value = None, description = None,
      is_bit_config = False\<rparr> 0 () = (Inr (PInt 0), ())"
  using
    generate_data_total [where c = ExtendedModbusTCPSimulator and rt = plain_rt and now = 0
      and w = "()" and config = "\<lparr>cfg_value = Callable failing_producer, interval = 1,
        last_update = 0, data_range = None, data_type = ''float32'', current_value = None,
        description = None, is_bit_config = False\<rparr>"]
    generate_data_total [where c = ModbusTCPSimulator and rt = plain_rt and now = 0
      and w = "()" and config = "\<lparr>cfg_value = Fixed (PStr [97]), interval = 1,
        last_update = 0, data_range = None, data_type = ''int16'', current_value = None,
        description = None, is_bit_config = False\<rparr>"]
  by (auto simp: producer_call_def call_producer_ext_def failing_producer_def
      convert_to_data_type_def convert_raw_def ebind_def plain_rt_def)

text \<open>
  Claim C10 as stated fails for a fixed value: the conversion of an infinite float to the
  type int16 raises OverflowError, which \<^verbatim>\<open>convert_to_data_type\<close> does not catch and
  \<^verbatim>\<open>generate_data\<close> converts outside its \<^verbatim>\<open>try\<close>.
\<close>

theorem generate_data_fixed_overflow_counterexample:
  "generate_data plain_rt
     \<lparr>cfg_value = Fixed (PFloat PosInf), interval = 1, last_update = 0, data_range = None,
      data_type = ''int16'', current_value = None, description = None,
      is_bit_config = False\<rparr> 0 () = (Inl OverflowError, ())"
  by (simp add: generate_data_def generate_value_def convert_to_data_type_def convert_raw_def
      ebind_def)

subsection \<open>The call of the producer\<close>


lemma clamp_to_range_last_update:
  "clamp_to_range f (config\<lparr>last_update := t\<rparr>) lo rest result w =
   clamp_to_range f config lo rest result w"
  by (simp add: clamp_to_range_def)

lemma producer_call_last_update [simp]:
  "producer_call c f (config\<lparr>last_update := t\<rparr>) w = producer_call c f config w"
  by (cases c)
    (auto simp: producer_call_def call_producer_ext_def clamp_to_range_last_update
      split: option.splits list.splits prod.splits sum.splits)

subsection \<open>Snapshot and reset\<close>

lemma overlay_register_more: "sim.more (snd (overlay_register gen sp a t rv s)) = sim.more s"
  by (auto simp: overlay_register_def split: option.splits prod.splits)

lemma generate_register_with_bits_more:
  "sim.more (snd (generate_register_with_bits gen rt sp a t s)) = sim.more s"
  by (auto simp: generate_register_with_bits_def overlay_register_more Let_def
      split: option.splits prod.splits sum.splits)

lemma overlay_loop_more:
  "sim.more (snd (snd (overlay_loop gen rt sp start t is resp s))) = sim.more s"
proof (induction "is" arbitrary: resp s)
  case Nil
  then show ?case by simp
next
  case (Cons i "is")
  show ?case
    using Cons.IH generate_register_with_bits_more [of gen rt sp "start + int i" t s]
    by (auto simp: Let_def split: option.splits prod.splits sum.splits)
qed

lemma handle_read_request_more:
  "sim.more (snd (handle_read_request gen rt fc start q t s)) = sim.more s"
proof (cases "address_type_map fc")
  case None
  then show ?thesis by (simp add: handle_read_request_def)
next
  case (Some sp)
  define qq where "qq = (if max_quantity fc < q then max_quantity fc else q)"
  show ?thesis
  proof (cases "fc = 1 \<or> fc = 2")
    case True
    then show ?thesis using Some
      by (auto simp: handle_read_request_def Let_def split: prod.splits)
  next
    case False
    obtain r dc' resp w' where re: "read_entries gen rt t start qq (data_config s sp)
        (replicate qq 0) (world s) = (r, dc', resp, w')"
      by (metis prod_cases4)
    show ?thesis
      using Some False re
        overlay_loop_more [of gen rt sp start t "[0..<qq]" resp
          "s\<lparr>data_config := (data_config s)(sp := dc'), world := w'\<rparr>"]
      by (auto simp: handle_read_request_def Let_def qq_def split: prod.splits option.splits)
  qed
qed

lemma original_from_more:
  fixes r s :: "'w ext_sim"
  shows "sim.more r = sim.more s \<Longrightarrow> original_data_config r = original_data_config s"
  by (cases r, cases s) simp

lemma run_call_snapshot:
  assumes "original_data_config s = Snapshot d"
  shows "original_data_config (run_call gen rt c s) = Snapshot d"
proof (cases c)
  case (SetData x11 x12 x13 x14 x15 x16 x17)
  then show ?thesis using assms
    by (auto simp: set_data_config_def Let_def split: option.splits prod.splits)
next
  case (SetBits x21 x22 x23 x24)
  then show ?thesis using assms
    by (auto simp: set_bit_config_def Let_def split: option.splits prod.splits)
next
  case (Read x31 x32 x33 x34)
  show ?thesis using assms Read
      original_from_more [OF handle_read_request_more [of gen rt x31 x32 x33 x34 s]]
    by simp
next
  case ClearConfig
  then show ?thesis using assms by simp
qed

lemma run_calls_snapshot:
  "original_data_config s = Snapshot d \<Longrightarrow>
   original_data_config (run_calls gen rt calls s) = Snapshot d"
  unfolding run_calls_def
  by (induction calls arbitrary: s) (simp_all add: run_call_snapshot)

text \<open>
  The sequence of \<^verbatim>\<open>start_server\<close> and \<^verbatim>\<open>stop_server\<close>: the snapshot is saved on the
  new simulator object, before \<^verbatim>\<open>apply_config_to_simulator\<close> installs anything. Whatever
  is installed and read afterwards, the reset at shutdown leaves every space empty.
\<close>

lemma start_stop_leaves_no_entries:
  "data_config (snd (reset_data gen t
     (run_calls gen rt calls (save_original_config (init_ext_sim w))))) sp = []"
  using run_calls_snapshot [of "save_original_config (init_ext_sim w)" "\<lambda>sp. []" gen rt calls]
  by (simp add: reset_data_def save_original_config_def init_ext_sim_def)


lemma fixed_ok_last_update [simp]:
  "fixed_ok rt (config\<lparr>last_update := t\<rparr>) = fixed_ok rt config"
  by (simp add: fixed_ok_def split: valspec.splits)

lemma run_calls_append:
  "run_calls gen rt (xs @ ys) s = run_calls gen rt ys (run_calls gen rt xs s)"
  by (simp add: run_calls_def)

text \<open>
  Whatever \<^verbatim>\<open>start_server\<close> installs and whatever is read or installed while the server
  runs, \<^verbatim>\<open>stop_server\<close> leaves every space empty.
\<close>

lemma start_stop_leaves_every_space_empty:
  "data_config (snd (stop_server gen t
     (run_calls gen rt calls (start_server gen rt installs w)))) sp = []"
  using start_stop_leaves_no_entries [of gen t rt "(ClearConfig # installs) @ calls" w sp]
  unfolding run_calls_append by (simp add: start_server_def stop_server_def)

text \<open>
  A reset on a simulator whose snapshot is the very object \<^verbatim>\<open>data_config\<close> (the state
  that an earlier reset leaves behind) changes nothing; a reset with a snapshot calls no
  producer.
\<close>

lemma reset_data_same_object:
  "original_data_config s = SameObject \<Longrightarrow> reset_data gen t s = (None, s)"
  by (simp add: reset_data_def)

lemma reset_data_snapshot_world:
  "original_data_config s \<noteq> NoSnapshot \<Longrightarrow> world (snd (reset_data gen t s)) = world s"
  by (cases "original_data_config s") (simp_all add: reset_data_def)

text \<open>
  Claim C3: reset, invoked on server shutdown, restores for every configured entry the
  value, interval, range parameters and producer identity to the deep-copied snapshot of
  all configured entries taken at server start, and re-invokes each entry's producer once
  to seed the cached value. The code does not do this. The tool is started with one
  holding register at address 0, driven by a counting ramp with interval 1:
  \<^verbatim>\<open>start_server\<close> takes the snapshot on the new simulator object before
  \<^verbatim>\<open>apply_config_to_simulator\<close> installs the entry, so the snapshot holds no entry, while
  the store holds the entry with the ramp's first value. \<^verbatim>\<open>stop_server\<close> at time 10 then
  puts the empty snapshot in place: the configured entry is gone from the store, with its
  value, interval, type and producer, and the producer has not been called again (the
  ramp's cell holds 1 before and after).
\<close>

theorem start_stop_loses_configuration:
  "start_server (generate_data_ext plain_rt) plain_rt
     [SetData ''holding_registers'' 0 (Callable (ramp_func 1 65535)) 1 None ''int16'' 0] 0 =
     \<lparr>data_config = (\<lambda>sp. [])(HoldingRegisters :=
        [(0, \<lparr>cfg_value = Callable (ramp_func 1 65535), interval = 1, last_update = 0,
              data_range = None, data_type = ''int16'', current_value = Some (PInt 1),
              description = None, is_bit_config = False\<rparr>)]),
      bit_config = (\<lambda>sp. []), world = 1, original_data_config = Snapshot (\<lambda>sp. [])\<rparr> \<and>
   stop_server (generate_data_ext plain_rt) 10
     (start_server (generate_data_ext plain_rt) plain_rt
        [SetData ''holding_registers'' 0 (Callable (ramp_func 1 65535)) 1 None ''int16'' 0] 0) =
     (None, \<lparr>data_config = (\<lambda>sp. []), bit_config = (\<lambda>sp. []), world = 1,
             original_data_config = SameObject\<rparr>)"
  by (simp add: start_server_def stop_server_def run_calls_def save_original_config_def
      init_ext_sim_def reset_data_def set_data_config_def space_of_name_def regenerate_def
      generate_data_ext_def call_producer_ext_def ramp_func_def convert_to_data_type_def
      convert_raw_def ebind_def Let_def)

subsection \<open>Read coverage\<close>

lemma hello_sim_eq:
  "hello_sim =
     \<lparr>data_config = (\<lambda>sp. [])(HoldingRegisters :=
        [(4, \<lparr>cfg_value = Fixed (PStr hello), interval = 10, last_update = 0,
               data_range = None, data_type = ''string'', current_value = Some (PStr hello),
               description = None, is_bit_config = False\<rparr>)]),
      bit_config = (\<lambda>sp. []), world = ()\<rparr>"
  by (simp add: hello_sim_def set_data_config_def space_of_name_def regenerate_def
      generate_data_def generate_value_def convert_to_data_type_def convert_raw_def init_sim_def)

lemma get_register_count_string: "get_register_count plain_rt ''string'' = 1"
  by (simp add: get_register_count_def pack_value_to_registers_def pack_raw_def str_of_int_def digits.simps)

text \<open>
  Claim C6 at the failing input. The string entry at address 4 packs to five words. A
  read of two registers from address 4 returns its first two words. A read of one register
  from address 5, which the entry covers, returns 0 and not the entry's second word 101:
  for an entry that starts before the window the width is taken from the register count of
  the sample value 0, which is 1 for every string.
\<close>

theorem string_entry_before_window:
  "pack_value_to_registers plain_rt (Fixed (PStr hello) :: unit valspec) ''string'' =
     [72, 101, 108, 108, 111] \<and>
   fst (handle_read_request (generate_data plain_rt) plain_rt 3 4 2 1 hello_sim) =
     Inr [PInt 72, PInt 101] \<and>
   fst (handle_read_request (generate_data plain_rt) plain_rt 3 5 1 1 hello_sim) = Inr [PInt 0]"
  by (simp add: hello_sim_eq get_register_count_string handle_read_request_def
      address_type_map_def max_quantity_def read_entry_def refresh_if_due_def cached_def
      pack_value_to_registers_def pack_raw_def slice_assign_def overlays_of_def
      has_bit_config_def hello_def Let_def upt_conv_Cons)

subsection \<open>Read coverage: length of the response\<close>


lemma slice_assign_length_in:
  "i + length ys \<le> length xs \<Longrightarrow> length (slice_assign xs i (i + length ys) ys) = length xs"
  by (simp add: slice_assign_def)





subsection \<open>Reads of a fault-free store return\<close>











lemma overlays_of_data_update [simp]:
  "overlays_of (s\<lparr>data_config := d, world := w\<rparr>) sp = overlays_of s sp"
  by (simp add: overlays_of_def)





subsection \<open>Quantity clamp\<close>













subsection \<open>Bit overlay composition\<close>























subsection \<open>Freshness of reads\<close>





lemma quiet_last_update [simp]: "quiet cnt (config\<lparr>last_update := t\<rparr>) = quiet cnt config"
  by (simp add: quiet_def)

lemma quiet_current_value [simp]: "quiet cnt (config\<lparr>current_value := v\<rparr>) = quiet cnt config"
  by (simp add: quiet_def)

lemma bumps_last_update [simp]: "bumps cnt (config\<lparr>last_update := t\<rparr>) = bumps cnt config"
  by (simp add: bumps_def)

lemma bumps_current_value [simp]: "bumps cnt (config\<lparr>current_value := v\<rparr>) = bumps cnt config"
  by (simp add: bumps_def)

lemma producer_called_last_update [simp]:
  "producer_called (config\<lparr>last_update := t\<rparr>) = producer_called config"
  by (simp add: producer_called_def split: valspec.splits option.splits)































text \<open>
  The update interval has to be positive: with the interval 0 and a bit overlay on the
  register, the entry is due again when \<^verbatim>\<open>generate_register_with_bits\<close> tests it, and one
  read calls the producer twice.
\<close>

lemma nonpositive_interval_refreshes_twice:
  "world (snd (handle_read_request (generate_data plain_rt) plain_rt 3 10 1 5
            (counter_overlay_store 0))) = 2 \<and>
   world (snd (handle_read_request (generate_data plain_rt) plain_rt 3 10 1 5
            (counter_overlay_store 1))) = 1"
  by (simp add: counter_overlay_store_def counter_entry_def call_counter_def
      handle_read_request_def
      address_type_map_def max_quantity_def read_entry_def refresh_if_due_def regenerate_def
      generate_data_def generate_value_def call_producer_def convert_to_data_type_def
      convert_raw_def ebind_def cached_def pack_value_to_registers_def pack_raw_def
      get_register_count_def slice_assign_def overlays_of_def has_bit_config_def
      generate_register_with_bits_def overlay_register_def base_register_def
      Let_def)


end
